theory Spec2Isabelle
  imports Main
begin

section \<open>LLVM values as the interpreter observes them\<close>

text \<open>
  The package \<^verbatim>\<open>interp\<close> works on handles of the LLVM binding (\<^verbatim>\<open>llvm.Value\<close>).
  A handle is modelled by the kind of object it points to. Instructions carry a
  \<open>handle\<close> number, their identity: two instructions of the same shape are still
  two different \<^verbatim>\<open>llvm.Value\<close>s, and Go's \<^verbatim>\<open>==\<close> on them compares identity.
  A global variable carries its name and whether it is a global constant, a function
  its name (its parameters and blocks live in the module). The nil handle is
  \<open>None\<close> of \<open>llvm_value option\<close>.
\<close>

type_synonym handle = nat

datatype llvm_value =
    GlobalVariable string bool
  | FunctionValue string
  | Constant string "llvm_value list"
  | Argument string nat
  | BasicBlockAsValue string nat
  | ReturnInst handle "llvm_value list"
  | CallInst handle llvm_value "llvm_value list"
  | AllocaInst handle string string
  | GetElementPtrInst handle "llvm_value list"
  | OtherInst handle string "llvm_value list"

definition IsNil :: "llvm_value option \<Rightarrow> bool" where
  "IsNil v = (v = None)"

fun IsAGlobalVariable :: "llvm_value \<Rightarrow> llvm_value option" where
  "IsAGlobalVariable (GlobalVariable n c) = Some (GlobalVariable n c)"
| "IsAGlobalVariable _ = None"

fun IsGlobalConstant :: "llvm_value \<Rightarrow> bool" where
  "IsGlobalConstant (GlobalVariable n c) = c"
| "IsGlobalConstant _ = False"

fun IsAFunction :: "llvm_value \<Rightarrow> llvm_value option" where
  "IsAFunction (FunctionValue n) = Some (FunctionValue n)"
| "IsAFunction _ = None"

text \<open>In LLVM global variables and functions are constants too.\<close>

fun IsConstant :: "llvm_value \<Rightarrow> bool" where
  "IsConstant (GlobalVariable n c) = True"
| "IsConstant (FunctionValue n) = True"
| "IsConstant (Constant d ops) = True"
| "IsConstant _ = False"

fun IsAReturnInst :: "llvm_value \<Rightarrow> llvm_value option" where
  "IsAReturnInst (ReturnInst h ops) = Some (ReturnInst h ops)"
| "IsAReturnInst _ = None"

fun IsACallInst :: "llvm_value \<Rightarrow> llvm_value option" where
  "IsACallInst (CallInst h f args) = Some (CallInst h f args)"
| "IsACallInst _ = None"

fun IsAGetElementPtrInst :: "llvm_value \<Rightarrow> llvm_value option" where
  "IsAGetElementPtrInst (GetElementPtrInst h ops) = Some (GetElementPtrInst h ops)"
| "IsAGetElementPtrInst _ = None"

fun IsABasicBlock :: "llvm_value \<Rightarrow> llvm_value option" where
  "IsABasicBlock (BasicBlockAsValue f i) = Some (BasicBlockAsValue f i)"
| "IsABasicBlock _ = None"

text \<open>
  The operands of a value. The called value of a call is its last operand, as in
  LLVM. The initializer of a global variable is kept by the module, not by the handle.
\<close>

fun Operands :: "llvm_value \<Rightarrow> llvm_value list" where
  "Operands (Constant d ops) = ops"
| "Operands (ReturnInst h ops) = ops"
| "Operands (CallInst h f args) = args @ [f]"
| "Operands (GetElementPtrInst h ops) = ops"
| "Operands (OtherInst h d ops) = ops"
| "Operands _ = []"

definition OperandsCount :: "llvm_value \<Rightarrow> nat" where
  "OperandsCount v = length (Operands v)"

definition Operand :: "llvm_value \<Rightarrow> nat \<Rightarrow> llvm_value" where
  "Operand v i = Operands v ! i"

fun CalledValue :: "llvm_value \<Rightarrow> llvm_value" where
  "CalledValue (CallInst h f args) = f"
| "CalledValue v = v"

fun Name :: "llvm_value \<Rightarrow> string" where
  "Name (GlobalVariable n c) = n"
| "Name (FunctionValue n) = n"
| "Name (AllocaInst h ty n) = n"
| "Name _ = []"

section \<open>The module and the state of an evaluation\<close>

text \<open>
  A module holds its functions by name; a function has its parameters and its basic
  blocks, the first being the entry block; a basic block is the list of its
  instructions. \<open>NextHandle\<close> is the identity the next created instruction gets.
\<close>

record llvm_function =
  Params :: "llvm_value list"
  Blocks :: "llvm_value list list"

record llvm_module =
  DataLayout :: string
  Functions :: "(string \<times> llvm_function) list"
  Globals :: "(string \<times> llvm_value) list"
  NextHandle :: handle

text \<open>
  \<^verbatim>\<open>type Eval struct\<close>. The cache \<open>sideEffectFuncs\<close> is a Go map that may be nil
  (\<open>None\<close>); the type of its entries, \<^verbatim>\<open>sideEffectResult\<close>, is declared in
  another file of the package and is the parameter \<open>'r\<close>. The builder is modelled by its
  insertion point, the instruction before which it inserts.
\<close>

record 'r Eval =
  Mod :: llvm_module
  TargetData :: string
  Debug :: bool
  builder :: "llvm_value option"
  dirtyGlobals :: "llvm_value set"
  sideEffectFuncs :: "(llvm_value \<rightharpoonup> 'r) option"

text \<open>A Go call either returns or panics.\<close>

datatype 'a outcome = Returned 'a | Panicked string

section \<open>markDirty\<close>

function markDirty :: "'r Eval \<Rightarrow> llvm_value \<Rightarrow> 'r Eval outcome" where
  "markDirty e v =
     (if \<not> IsNil (IsAGlobalVariable v) then
        (if IsGlobalConstant v then Returned e
         else if v \<notin> dirtyGlobals e then
           Returned (e\<lparr>dirtyGlobals := insert v (dirtyGlobals e), sideEffectFuncs := None\<rparr>)
         else Returned e)
      else if IsConstant v then
        (if 2 \<le> OperandsCount v \<and> \<not> IsNil (IsAGlobalVariable (Operand v 0))
         then markDirty e (Operand v 0)
         else Returned e)
      else if \<not> IsNil (IsAGetElementPtrInst v) then Panicked ''interp: todo: GEP''
      else Returned e)"
  by pat_completeness auto
termination
proof (relation "measure (\<lambda>(e, v). size v)")
  show "wf (measure (\<lambda>(e :: 'r Eval, v). size v))"
    by simp
next
  fix e :: "'r Eval" and v
  assume "IsConstant v" and n: "2 \<le> OperandsCount v \<and> \<not> IsNil (IsAGlobalVariable (Operand v 0))"
  then obtain d ops where v: "v = Constant d ops"
    by (cases v) (simp_all add: OperandsCount_def)
  with n have "0 < length ops"
    by (auto simp: OperandsCount_def)
  then have "ops ! 0 \<in> set ops"
    by (rule nth_mem)
  then have "size (ops ! 0) \<le> size_list size ops"
    by (rule size_list_estimation') simp
  with v show "((e, Operand v 0), (e, v)) \<in> measure (\<lambda>(e, v). size v)"
    by (simp add: Operand_def)
qed

declare markDirty.simps [simp del]

section \<open>Errors, interpreter values and frames\<close>

text \<open>
  \<^verbatim>\<open>ErrUnreachable\<close> is a sentinel error of the package, compared by identity; every
  error made with \<^verbatim>\<open>errors.New\<close> is a different one. \<^verbatim>\<open>LocalValue\<close> is the one
  implementation of the interface \<^verbatim>\<open>Value\<close> that the driver constructs; its back
  pointer to the \<^verbatim>\<open>Eval\<close> is the state that is passed along. A basic block is named
  by its function and its index in the function; the nil block is \<open>None\<close>.
\<close>

datatype error = ErrUnreachable | ErrorString string

datatype Value = LocalValue llvm_value

datatype BasicBlock = BasicBlock string nat

record frame =
  fn :: llvm_value
  pkgName :: string
  locals :: "llvm_value \<rightharpoonup> Value"

section \<open>The operations of the LLVM binding that the driver uses\<close>

definition NamedFunction :: "llvm_module \<Rightarrow> string \<Rightarrow> llvm_value option" where
  "NamedFunction m name =
     (case map_of (Functions m) name of None \<Rightarrow> None | Some f \<Rightarrow> Some (FunctionValue name))"

fun lookup_function :: "llvm_module \<Rightarrow> llvm_value \<Rightarrow> llvm_function option" where
  "lookup_function m (FunctionValue name) = map_of (Functions m) name"
| "lookup_function m _ = None"

definition EntryBasicBlock :: "llvm_module \<Rightarrow> llvm_value \<Rightarrow> BasicBlock option" where
  "EntryBasicBlock m f =
     (case lookup_function m f of
        None \<Rightarrow> None
      | Some d \<Rightarrow> (if Blocks d = [] then None else Some (BasicBlock (Name f) 0)))"

fun Instructions :: "llvm_module \<Rightarrow> BasicBlock \<Rightarrow> llvm_value list" where
  "Instructions m (BasicBlock name i) =
     (case map_of (Functions m) name of
        None \<Rightarrow> []
      | Some d \<Rightarrow> (if i < length (Blocks d) then Blocks d ! i else []))"

definition FirstInstruction :: "llvm_module \<Rightarrow> BasicBlock \<Rightarrow> llvm_value option" where
  "FirstInstruction m bb = (case Instructions m bb of [] \<Rightarrow> None | inst # rest \<Rightarrow> Some inst)"

text \<open>Every instruction of the module, block after block.\<close>

definition all_instructions :: "llvm_module \<Rightarrow> llvm_value list" where
  "all_instructions m = concat (concat (map (\<lambda>(name, d). Blocks d) (Functions m)))"

text \<open>
  \<^verbatim>\<open>SetInsertPointBefore(bb.FirstInstruction())\<close> followed by \<^verbatim>\<open>CreateAlloca\<close>: a new
  alloca instruction, with a fresh identity, becomes the first instruction of the
  block. The result is the module and the new instruction.
\<close>

fun update_block :: "(llvm_value list \<Rightarrow> llvm_value list) \<Rightarrow> BasicBlock \<Rightarrow>
    (string \<times> llvm_function) list \<Rightarrow> (string \<times> llvm_function) list" where
  "update_block g bb [] = []"
| "update_block g (BasicBlock name i) ((n, d) # fs) =
     (if n = name then (n, d\<lparr>Blocks := (Blocks d)[i := g (Blocks d ! i)]\<rparr>) # fs
      else (n, d) # update_block g (BasicBlock name i) fs)"

definition CreateAlloca_at_start ::
    "llvm_module \<Rightarrow> BasicBlock \<Rightarrow> string \<Rightarrow> string \<Rightarrow> llvm_module \<times> llvm_value" where
  "CreateAlloca_at_start m bb ty name =
     (let inst = AllocaInst (NextHandle m) ty name
      in (m\<lparr>Functions := update_block (\<lambda>insts. inst # insts) bb (Functions m),
             NextHandle := Suc (NextHandle m)\<rparr>, inst))"

text \<open>
  \<^verbatim>\<open>EraseFromParentAsInstruction\<close>: the instruction leaves the block that holds it.
  Identities are unique in a module, so it is removed wherever it stands.
\<close>

definition EraseFromParentAsInstruction :: "llvm_value \<Rightarrow> llvm_module \<Rightarrow> llvm_module" where
  "EraseFromParentAsInstruction inst m =
     m\<lparr>Functions := map (\<lambda>(name, d). (name, d\<lparr>Blocks := map (removeAll inst) (Blocks d)\<rparr>))
          (Functions m)\<rparr>"

section \<open>Go's string helpers\<close>

definition HasPrefix :: "string \<Rightarrow> string \<Rightarrow> bool" where
  "HasPrefix s p = (length p \<le> length s \<and> take (length p) s = p)"

definition HasSuffix :: "string \<Rightarrow> string \<Rightarrow> bool" where
  "HasSuffix s suffix =
     (length suffix \<le> length s \<and> drop (length s - length suffix) s = suffix)"

text \<open>\<^verbatim>\<open>strings.Split(s, sep)\<close> for a separator of one byte.\<close>

fun Split :: "string \<Rightarrow> char \<Rightarrow> string list" where
  "Split [] sep = [[]]"
| "Split (c # cs) sep =
     (if c = sep then [] # Split cs sep
      else (case Split cs sep of [] \<Rightarrow> [[c]] | l # ls \<Rightarrow> (c # l) # ls))"

section \<open>Evaluating one function\<close>

text \<open>
  \<^verbatim>\<open>frame.evalBasicBlock\<close> is defined in another file of the package, which is not
  modelled: it is the parameter \<open>ev\<close> of everything below. It gets the state, the frame, the block, the block before and
  the indentation, and gives back the state and the frame as it left them, the
  returned value (nil is \<open>None\<close>), the outgoing blocks (the nil slice is \<open>None\<close>) and
  the error; it may panic, and it may not return at all (\<open>None\<close>).
\<close>

type_synonym 'r evalBasicBlock =
  "'r Eval \<Rightarrow> frame \<Rightarrow> BasicBlock \<Rightarrow> BasicBlock option \<Rightarrow> string \<Rightarrow>
     ('r Eval \<times> frame \<times> Value option \<times> llvm_value list option \<times> error option) outcome option"

text \<open>The first loop of \<^verbatim>\<open>function\<close>: \<^verbatim>\<open>fr.locals[param] = params[i]\<close>, for every
  parameter of the callee; \<open>None\<close> is the panic of an index out of range.\<close>

fun seed_locals :: "llvm_value list \<Rightarrow> Value list \<Rightarrow> nat \<Rightarrow> (llvm_value \<rightharpoonup> Value) \<Rightarrow>
    (llvm_value \<rightharpoonup> Value) option" where
  "seed_locals [] params i ls = Some ls"
| "seed_locals (param # rest) params i ls =
     (if i < length params then seed_locals rest params (Suc i) (ls(param \<mapsto> params ! i))
      else None)"

fun AsBasicBlock :: "llvm_value \<Rightarrow> BasicBlock" where
  "AsBasicBlock (BasicBlockAsValue f i) = BasicBlock f i"
| "AsBasicBlock v = BasicBlock [] 0"

text \<open>The second loop of \<^verbatim>\<open>function\<close>, over the basic blocks. It ends when a block
  evaluation gives no outgoing block; nothing bounds the number of rounds.\<close>

partial_function (option) function_loop ::
    "'r evalBasicBlock \<Rightarrow> 'r Eval \<Rightarrow> frame \<Rightarrow> BasicBlock \<Rightarrow> BasicBlock option \<Rightarrow> string \<Rightarrow>
     ('r Eval \<times> Value option \<times> error option) outcome option" where
  "function_loop ev e fr bb lastBB indent =
     Option.bind (ev e fr bb lastBB indent) (\<lambda>r.
       case r of
         Panicked msg \<Rightarrow> Some (Panicked msg)
       | Returned (e', fr', retval, outgoing, err) \<Rightarrow>
           (case outgoing of
              None \<Rightarrow> Some (Returned (e', retval, err))
            | Some out \<Rightarrow>
                if 1 < length out then Some (Panicked ''unimplemented: multiple outgoing blocks'')
                else if out = [] then Some (Panicked ''index out of range'')
                else if IsNil (IsABasicBlock (out ! 0))
                  then Some (Panicked ''did not switch to a basic block'')
                else function_loop ev e' fr' (AsBasicBlock (out ! 0)) (Some bb) indent))"

declare function_loop.simps [code]

definition Eval_function ::
    "'r evalBasicBlock \<Rightarrow> 'r Eval \<Rightarrow> llvm_value \<Rightarrow> Value list \<Rightarrow> string \<Rightarrow> string \<Rightarrow>
     ('r Eval \<times> Value option \<times> error option) outcome option" where
  "Eval_function ev e f params pkg indent =
     (case lookup_function (Mod e) f of
        None \<Rightarrow> Some (Panicked ''not a function of the module'')
      | Some d \<Rightarrow>
          (case seed_locals (Params d) params 0 Map.empty of
             None \<Rightarrow> Some (Panicked ''index out of range'')
           | Some ls \<Rightarrow>
               (case EntryBasicBlock (Mod e) f of
                  None \<Rightarrow> Some (Panicked ''function without entry block'')
                | Some bb \<Rightarrow>
                    function_loop ev e \<lparr>fn = f, pkgName = pkg, locals = ls\<rparr> bb None indent)))"

definition Eval_Function ::
    "'r evalBasicBlock \<Rightarrow> 'r Eval \<Rightarrow> llvm_value \<Rightarrow> Value list \<Rightarrow> string \<Rightarrow>
     ('r Eval \<times> Value option \<times> error option) outcome option" where
  "Eval_Function ev e f params pkg = Eval_function ev e f params pkg []"

section \<open>Run: the driver\<close>

text \<open>
  The first loop of \<^verbatim>\<open>Run\<close>, over the instructions of the entry block of
  \<^verbatim>\<open>runtime.initAll\<close> from the first one on: the dummy is skipped, a return ends the
  loop, anything but a call of a function is an error, and a call is appended to
  \<^verbatim>\<open>initCalls\<close>.
\<close>

fun collect_initCalls ::
    "string \<Rightarrow> llvm_value \<Rightarrow> llvm_value list \<Rightarrow> llvm_value list \<Rightarrow> error + llvm_value list" where
  "collect_initCalls name dummy [] initCalls = Inr initCalls"
| "collect_initCalls name dummy (inst # rest) initCalls =
     (if inst = dummy then collect_initCalls name dummy rest initCalls
      else if \<not> IsNil (IsAReturnInst inst) then Inr initCalls
      else if IsNil (IsACallInst inst) \<or> IsNil (IsAFunction (CalledValue inst))
        then Inl (ErrorString (''expected all instructions in '' @ name @ '' to be direct calls''))
      else collect_initCalls name dummy rest (initCalls @ [inst]))"

definition undefPtr :: llvm_value where
  "undefPtr = Constant ''i8* undef'' []"

text \<open>
  The second loop of \<^verbatim>\<open>Run\<close>, over \<^verbatim>\<open>initCalls\<close>. How the loop was left is part of
  the result: it ran through all calls, it was left by \<^verbatim>\<open>break\<close>, or \<^verbatim>\<open>Run\<close>
  returned an error from inside it.
\<close>

datatype 'r loop_exit = Completed "'r Eval" | Break "'r Eval" | Return "'r Eval" error

fun Run_loop ::
    "'r evalBasicBlock \<Rightarrow> string \<Rightarrow> 'r Eval \<Rightarrow> llvm_value list \<Rightarrow> 'r loop_exit outcome option" where
  "Run_loop ev name e [] = Some (Returned (Completed e))"
| "Run_loop ev name e (call # rest) =
     (let initName = Name (CalledValue call) in
      if \<not> HasSuffix initName ''.init''
      then Some (Returned (Return e
             (ErrorString (''expected all instructions in '' @ name @ '' to be *.init() calls''))))
      else
        let pkg = take (length initName - 5) initName;
            f = CalledValue call;
            e1 = e\<lparr>Mod := EraseFromParentAsInstruction call (Mod e)\<rparr>
        in Option.bind (Eval_Function ev e1 f [LocalValue undefPtr, LocalValue undefPtr] pkg) (\<lambda>r.
             case r of
               Panicked msg \<Rightarrow> Some (Panicked msg)
             | Returned (e2, retval, err) \<Rightarrow>
                 if err = Some ErrUnreachable then Some (Returned (Break e2))
                 else (case err of
                         Some x \<Rightarrow> Some (Returned (Return e2 x))
                       | None \<Rightarrow> Run_loop ev name e2 rest)))"

text \<open>
  \<^verbatim>\<open>Run\<close> up to its second loop: the state is set up, the dummy alloca is put at the
  start of the entry block of \<^verbatim>\<open>runtime.initAll\<close>, and the calls are collected.
  What \<^verbatim>\<open>println\<close> writes in debug mode is left out. A missing
  \<^verbatim>\<open>runtime.initAll\<close>, one without a block and an empty entry block make the
  binding crash.
\<close>

definition Run_scan :: "llvm_module \<Rightarrow> bool \<Rightarrow> ('r Eval \<times> (error + llvm_value list)) outcome" where
  "Run_scan m debug =
     (let name = ''runtime.initAll'';
          e = \<lparr>Mod = m, TargetData = DataLayout m, Debug = debug, builder = None,
               dirtyGlobals = {}, sideEffectFuncs = None\<rparr>
      in case NamedFunction m name of
           None \<Rightarrow> Panicked ''nil function''
         | Some initAll \<Rightarrow>
            (case EntryBasicBlock m initAll of
               None \<Rightarrow> Panicked ''function without entry block''
             | Some bb \<Rightarrow>
                (case FirstInstruction m bb of
                   None \<Rightarrow> Panicked ''nil instruction''
                 | Some first \<Rightarrow>
                    (case CreateAlloca_at_start m bb ''i8'' ''dummy'' of
                       (m1, dummy) \<Rightarrow>
                         Returned (e\<lparr>Mod := m1, builder := Some dummy\<rparr>,
                                   collect_initCalls name dummy (Instructions m1 bb) [])))))"

text \<open>
  \<^verbatim>\<open>Run\<close> gives back the error it returns (nil is \<open>None\<close>) and, the module being
  changed in place, the state it leaves.
\<close>

definition Run ::
    "'r evalBasicBlock \<Rightarrow> llvm_module \<Rightarrow> bool \<Rightarrow> ('r Eval \<times> error option) outcome option" where
  "Run ev m debug =
     (case Run_scan m debug of
        Panicked msg \<Rightarrow> Some (Panicked msg)
      | Returned (e1, Inl err) \<Rightarrow> Some (Returned (e1, Some err))
      | Returned (e1, Inr initCalls) \<Rightarrow>
          Option.bind (Run_loop ev ''runtime.initAll'' e1 initCalls) (\<lambda>r.
            case r of
              Panicked msg \<Rightarrow> Some (Panicked msg)
            | Returned (Completed e2) \<Rightarrow> Some (Returned (e2, None))
            | Returned (Break e2) \<Rightarrow> Some (Returned (e2, None))
            | Returned (Return e2 err) \<Rightarrow> Some (Returned (e2, Some err))))"

section \<open>Comparing IR in the tests\<close>

fun filterIrrelevantIRLines_loop :: "string list \<Rightarrow> string list \<Rightarrow> string list" where
  "filterIrrelevantIRLines_loop [] out = out"
| "filterIrrelevantIRLines_loop (line # rest) out =
     (if line = [] \<or> line ! 0 = CHR '';'' then filterIrrelevantIRLines_loop rest out
      else if HasPrefix line ''source_filename = '' then filterIrrelevantIRLines_loop rest out
      else filterIrrelevantIRLines_loop rest (out @ [line]))"

definition filterIrrelevantIRLines :: "string list \<Rightarrow> string list" where
  "filterIrrelevantIRLines lines = filterIrrelevantIRLines_loop lines []"

text \<open>The loop of \<^verbatim>\<open>fuzzyEqualIR\<close>: \<^verbatim>\<open>for i, line := range lines1\<close>, from index \<open>i\<close> on.\<close>

fun compare_lines :: "nat \<Rightarrow> string list \<Rightarrow> string list \<Rightarrow> bool" where
  "compare_lines i [] lines2 = True"
| "compare_lines i (line # rest) lines2 =
     (if line \<noteq> lines2 ! i then False else compare_lines (Suc i) rest lines2)"

definition fuzzyEqualIR :: "string \<Rightarrow> string \<Rightarrow> bool" where
  "fuzzyEqualIR s1 s2 =
     (let lines1 = filterIrrelevantIRLines (Split s1 (CHR 0x0A));
          lines2 = filterIrrelevantIRLines (Split s2 (CHR 0x0A))
      in if length lines1 \<noteq> length lines2 then False else compare_lines 0 lines1 lines2)"

text \<open>
  What the comparison is said to do, in the words of its description: a line is
  irrelevant when it is empty, when its first character is a semicolon, or when it
  begins with \<^verbatim>\<open>source_filename = \<close>; the relevant lines of a text are the others, in
  their order.
\<close>

definition irrelevant_line :: "string \<Rightarrow> bool" where
  "irrelevant_line l = (l = [] \<or> hd l = CHR '';'' \<or> take 18 l = ''source_filename = '')"

definition relevant_lines :: "string \<Rightarrow> string list" where
  "relevant_lines s = filter (\<lambda>l. \<not> irrelevant_line l) (Split s (CHR 0x0A))"

section \<open>Names for the parts of a run\<close>

text \<open>
  The entry block of \<^verbatim>\<open>runtime.initAll\<close>, the dummy alloca that \<^verbatim>\<open>Run\<close> creates in
  a module, the module with that dummy in place, and the state in which the second
  loop starts.
\<close>

definition initAll_block :: BasicBlock where
  "initAll_block = BasicBlock ''runtime.initAll'' 0"

definition new_dummy :: "llvm_module \<Rightarrow> llvm_value" where
  "new_dummy m = AllocaInst (NextHandle m) ''i8'' ''dummy''"

definition with_dummy :: "llvm_module \<Rightarrow> llvm_module" where
  "with_dummy m = fst (CreateAlloca_at_start m initAll_block ''i8'' ''dummy'')"

definition scan_state :: "llvm_module \<Rightarrow> bool \<Rightarrow> 'r Eval" where
  "scan_state m debug =
     \<lparr>Mod = with_dummy m, TargetData = DataLayout m, Debug = debug,
      builder = Some (new_dummy m), dirtyGlobals = {}, sideEffectFuncs = None\<rparr>"

text \<open>
  One round of the second loop: the parameters every init is called with, the state
  after the call instruction is erased, and the package name taken from the callee.
\<close>

definition init_params :: "Value list" where
  "init_params = [LocalValue undefPtr, LocalValue undefPtr]"

definition erase_call :: "llvm_value \<Rightarrow> 'r Eval \<Rightarrow> 'r Eval" where
  "erase_call call e = e\<lparr>Mod := EraseFromParentAsInstruction call (Mod e)\<rparr>"

definition package_of :: "llvm_value \<Rightarrow> string" where
  "package_of call = take (length (Name (CalledValue call)) - 5) (Name (CalledValue call))"

text \<open>
  The first loop in closed form: the instructions it looks at, the dummy apart, are
  those before the first return; each has to be a direct call.
\<close>

definition scanned :: "llvm_value \<Rightarrow> llvm_value list \<Rightarrow> llvm_value list" where
  "scanned dummy insts =
     filter (\<lambda>i. i \<noteq> dummy) (takeWhile (\<lambda>i. i = dummy \<or> IsNil (IsAReturnInst i)) insts)"

definition direct_call :: "llvm_value \<Rightarrow> bool" where
  "direct_call inst = (\<not> IsNil (IsACallInst inst) \<and> \<not> IsNil (IsAFunction (CalledValue inst)))"

text \<open>The state in which the second loop was left, however it was left.\<close>

fun exit_state :: "'r loop_exit \<Rightarrow> 'r Eval" where
  "exit_state (Completed e) = e"
| "exit_state (Break e) = e"
| "exit_state (Return e err) = e"

text \<open>
  The dummy that \<^verbatim>\<open>Run\<close> created in the module \<open>m\<close> still stands in the state \<open>e\<close>:
  it is in the entry block of \<^verbatim>\<open>runtime.initAll\<close>, before the first return, and the
  next instruction identity of the module of \<open>e\<close> lies beyond the one the dummy took.
\<close>

definition dummy_stands :: "llvm_module \<Rightarrow> 'r Eval \<Rightarrow> bool" where
  "dummy_stands m e =
     (new_dummy m \<in> set (takeWhile (\<lambda>i. IsNil (IsAReturnInst i)) (Instructions (Mod e) initAll_block)) \<and>
      NextHandle m < NextHandle (Mod e))"

section \<open>What a block evaluator may be known to do\<close>

text \<open>
  \<^verbatim>\<open>frame.evalBasicBlock\<close> being a parameter, a property of a whole run that depends
  on it is stated under a condition on it. \<open>preserves ev I\<close>: a block evaluation that
  returns, started in a state where \<open>I\<close> holds, leaves a state where \<open>I\<close> holds.
  \<open>marks_only ev\<close>: a block evaluation that returns changes the dirty-set as calls of
  \<^verbatim>\<open>markDirty\<close> do, the only operation on \<^verbatim>\<open>dirtyGlobals\<close> in the package besides
  its creation: nothing leaves the set, and what enters it is a global variable that
  is not a global constant.
\<close>

definition preserves :: "'r evalBasicBlock \<Rightarrow> ('r Eval \<Rightarrow> bool) \<Rightarrow> bool" where
  "preserves ev I =
     (\<forall>e fr bb lastBB indent e' fr' retval outgoing err.
        ev e fr bb lastBB indent = Some (Returned (e', fr', retval, outgoing, err)) \<longrightarrow> I e \<longrightarrow> I e')"

definition marks_only :: "'r evalBasicBlock \<Rightarrow> bool" where
  "marks_only ev =
     (\<forall>e fr bb lastBB indent e' fr' retval outgoing err.
        ev e fr bb lastBB indent = Some (Returned (e', fr', retval, outgoing, err)) \<longrightarrow>
          dirtyGlobals e \<subseteq> dirtyGlobals e' \<and>
          (\<forall>g \<in> dirtyGlobals e' - dirtyGlobals e.
             \<not> IsNil (IsAGlobalVariable g) \<and> \<not> IsGlobalConstant g))"

section \<open>A block evaluator for concrete runs\<close>

text \<open>
  Modelled from the spec: \<^verbatim>\<open>frame.evalBasicBlock\<close>, whose source is missing. This
  stand-in follows the specification's per-opcode policy for the few
  instructions the examples below use: \<^verbatim>\<open>ret\<close> leaves the frame, \<^verbatim>\<open>unreachable\<close>
  gives \<^verbatim>\<open>ErrUnreachable\<close>, \<^verbatim>\<open>br\<close> names the one outgoing block, a store marks what
  it stores to as dirty, and every other instruction cannot be evaluated. The
  theorems below hold for every block evaluator; this one only runs the examples.
\<close>

fun evalInstructions :: "'r Eval \<Rightarrow> frame \<Rightarrow> llvm_value list \<Rightarrow>
    ('r Eval \<times> frame \<times> Value option \<times> llvm_value list option \<times> error option) outcome" where
  "evalInstructions e fr [] = Returned (e, fr, None, None, Some (ErrorString ''unevaluable''))"
| "evalInstructions e fr (ReturnInst h ops # rest) = Returned (e, fr, None, None, None)"
| "evalInstructions e fr (OtherInst h d ops # rest) =
     (if d = ''unreachable'' then Returned (e, fr, None, None, Some ErrUnreachable)
      else if d = ''br'' then Returned (e, fr, None, Some ops, None)
      else if d = ''store'' \<and> length ops = 2 then
        (case markDirty e (ops ! 1) of
           Panicked msg \<Rightarrow> Panicked msg
         | Returned e' \<Rightarrow> evalInstructions e' fr rest)
      else Returned (e, fr, None, None, Some (ErrorString ''unevaluable'')))"
| "evalInstructions e fr (inst # rest) =
     Returned (e, fr, None, None, Some (ErrorString ''unevaluable''))"

definition evalBasicBlock_model :: "'r evalBasicBlock" where
  "evalBasicBlock_model e fr bb lastBB indent =
     Some (evalInstructions e fr (Instructions (Mod e) bb))"

text \<open>
  A block evaluator that looks at the frame it is given: it returns at once, and the
  value it returns is what the locals of the frame hold for the value \<open>v\<close>. With it,
  what \<^verbatim>\<open>function\<close> returns shows what the frame held when block evaluation began.
\<close>

definition evalBasicBlock_local :: "llvm_value \<Rightarrow> 'r evalBasicBlock" where
  "evalBasicBlock_local v e fr bb lastBB indent = Some (Returned (e, fr, locals fr v, None, None))"





section \<open>Example modules\<close>

definition init_function :: "string \<Rightarrow> llvm_value list \<Rightarrow> string \<times> llvm_function" where
  "init_function name body =
     (name, \<lparr>Params = [Argument name 0, Argument name 1], Blocks = [body]\<rparr>)"

definition example_module :: "llvm_value list \<Rightarrow> (string \<times> llvm_function) list \<Rightarrow> llvm_module" where
  "example_module initAll fs =
     \<lparr>DataLayout = ''e-p:32:32'',
      Functions = (''runtime.initAll'', \<lparr>Params = [], Blocks = [initAll]\<rparr>) # fs,
      Globals = [(''main.v1'', Constant ''i32 0'' [])],
      NextHandle = 100\<rparr>"

definition main_v1 :: llvm_value where
  "main_v1 = GlobalVariable ''main.v1'' False"

definition store_v1 :: llvm_value where
  "store_v1 = OtherInst 10 ''store'' [Constant ''i32 3'' [], main_v1]"

definition call_os :: llvm_value where
  "call_os = CallInst 1 (FunctionValue ''os.init'') [undefPtr, undefPtr]"

definition call_main :: llvm_value where
  "call_main = CallInst 2 (FunctionValue ''main.init'') [undefPtr, undefPtr]"

definition call_foo :: llvm_value where
  "call_foo = CallInst 3 (FunctionValue ''foo'') []"

text \<open>The modules and the state that the concrete runs below start from.\<close>

definition two_inits :: llvm_module where
  "two_inits = example_module [call_os, call_main, ReturnInst 9 []]
     [init_function ''os.init'' [ReturnInst 20 []],
      init_function ''main.init'' [store_v1, ReturnInst 11 []]]"

definition stops_early :: llvm_module where
  "stops_early = example_module [call_os, call_main, ReturnInst 9 []]
     [init_function ''os.init'' [OtherInst 20 ''unreachable'' []],
      init_function ''main.init'' [store_v1, ReturnInst 11 []]]"

definition failing_init :: llvm_module where
  "failing_init = example_module [call_main, ReturnInst 9 []]
     [init_function ''main.init'' [store_v1, OtherInst 11 ''load'' [main_v1]]]"

definition bad_name :: llvm_module where
  "bad_name = example_module [call_main, call_foo, ReturnInst 9 []]
     [init_function ''main.init'' [store_v1, ReturnInst 11 []]]"

definition bad_name_unreachable :: llvm_module where
  "bad_name_unreachable = example_module [call_main, call_foo, ReturnInst 9 []]
     [init_function ''main.init'' [OtherInst 11 ''unreachable'' []]]"

definition not_a_call :: llvm_module where
  "not_a_call = example_module [store_v1, ReturnInst 9 []] []"

definition no_inits :: llvm_module where
  "no_inits = example_module [ReturnInst 9 []] []"

definition three_params :: llvm_module where
  "three_params = example_module [call_main, ReturnInst 9 []]
     [(''main.init'',
       \<lparr>Params = [Argument ''main.init'' 0, Argument ''main.init'' 1, Argument ''main.init'' 2],
        Blocks = [[ReturnInst 11 []]]\<rparr>)]"

definition example_state :: "nat Eval" where
  "example_state =
     \<lparr>Mod = no_inits, TargetData = ''e-p:32:32'', Debug = False, builder = None,
      dirtyGlobals = {}, sideEffectFuncs = Some [FunctionValue ''main.init'' \<mapsto> 1]\<rparr>"

definition golden_ir :: string where
  "golden_ir = ''; ModuleID'' @ [CHR 0x0A] @ ''source_filename = x'' @ [CHR 0x0A] @ [CHR 0x0A]
     @ ''@v = global i32 3'' @ [CHR 0x0A]"

definition actual_ir :: string where
  "actual_ir = ''@v = global i32 3''"




section \<open>Properties of markDirty\<close>

lemma IsAGlobalVariable_cases:
  "\<not> IsNil (IsAGlobalVariable v) \<Longrightarrow> \<exists>n c. v = GlobalVariable n c"
  by (cases v) (simp_all add: IsNil_def)

lemma markDirty_GlobalVariable:
  "markDirty e (GlobalVariable n c) =
     (if c then Returned e
      else if GlobalVariable n c \<in> dirtyGlobals e then Returned e
      else Returned (e\<lparr>dirtyGlobals := insert (GlobalVariable n c) (dirtyGlobals e),
                       sideEffectFuncs := None\<rparr>))"
  by (subst markDirty.simps) (simp add: IsNil_def)

lemma markDirty_no_global:
  "IsNil (IsAGlobalVariable v) \<Longrightarrow>
   markDirty e v =
     (if IsConstant v then
        (if 2 \<le> OperandsCount v \<and> \<not> IsNil (IsAGlobalVariable (Operand v 0))
         then markDirty e (Operand v 0) else Returned e)
      else if \<not> IsNil (IsAGetElementPtrInst v) then Panicked ''interp: todo: GEP''
      else Returned e)"
  by (subst markDirty.simps) simp

text \<open>
  What a returning \<open>markDirty\<close> can have done.
\<close>

lemma markDirty_Returned:
  assumes "markDirty e v = Returned e'"
  shows "e' = e \<or>
    (\<exists>n. GlobalVariable n False \<notin> dirtyGlobals e \<and>
       e' = e\<lparr>dirtyGlobals := insert (GlobalVariable n False) (dirtyGlobals e),
              sideEffectFuncs := None\<rparr>)"
proof (cases "IsNil (IsAGlobalVariable v)")
  case False
  then obtain n c where "v = GlobalVariable n c"
    using IsAGlobalVariable_cases by blast
  with assms show ?thesis
    by (auto simp: markDirty_GlobalVariable split: if_splits)
next
  case True
  show ?thesis
  proof (cases "IsConstant v \<and> 2 \<le> OperandsCount v \<and> \<not> IsNil (IsAGlobalVariable (Operand v 0))")
    case False
    with assms True show ?thesis
      by (auto simp: markDirty_no_global split: if_splits)
  next
    case over: True
    then obtain n c where "Operand v 0 = GlobalVariable n c"
      using IsAGlobalVariable_cases by blast
    with assms True over show ?thesis
      by (auto simp: markDirty_no_global markDirty_GlobalVariable split: if_splits)
  qed
qed

section \<open>Properties of the comparison of IR\<close>

lemma HasPrefix_source_filename:
  "HasPrefix l ''source_filename = '' = (take 18 l = ''source_filename = '')"
proof -
  have len: "length ''source_filename = '' = 18"
    by simp
  have "18 \<le> length l" if "take 18 l = ''source_filename = ''"
  proof -
    from that have "length (take 18 l) = length ''source_filename = ''"
      by (rule arg_cong)
    then have "min (length l) 18 = 18"
      unfolding len length_take .
    then show ?thesis
      by linarith
  qed
  then show ?thesis
    unfolding HasPrefix_def len by blast
qed

lemma filterIrrelevantIRLines_loop_filter:
  "filterIrrelevantIRLines_loop ls out = out @ filter (\<lambda>l. \<not> irrelevant_line l) ls"
proof (induction ls arbitrary: out)
  case Nil
  show ?case by simp
next
  case (Cons l ls)
  have "irrelevant_line l = (l = [] \<or> l ! 0 = CHR '';'' \<or> HasPrefix l ''source_filename = '')"
    unfolding irrelevant_line_def HasPrefix_source_filename
    by (cases l) simp_all
  with Cons show ?case
    by simp
qed

lemma compare_lines_drop:
  "i + length xs = length ys \<Longrightarrow> compare_lines i xs ys = (xs = drop i ys)"
proof (induction xs arbitrary: i)
  case Nil
  then show ?case by simp
next
  case (Cons x xs)
  from Cons.prems have i: "i < length ys"
    by simp
  then have d: "drop i ys = ys ! i # drop (Suc i) ys"
    by (simp add: Cons_nth_drop_Suc)
  from Cons.prems have "Suc i + length xs = length ys"
    by simp
  then have "compare_lines (Suc i) xs ys = (xs = drop (Suc i) ys)"
    by (rule Cons.IH)
  with d show ?case
    by auto
qed

lemma fuzzyEqualIR_relevant_lines:
  "fuzzyEqualIR s1 s2 = (relevant_lines s1 = relevant_lines s2)"
proof -
  have f: "filterIrrelevantIRLines ls = filter (\<lambda>l. \<not> irrelevant_line l) ls" for ls
    by (simp add: filterIrrelevantIRLines_def filterIrrelevantIRLines_loop_filter)
  show ?thesis
  proof (cases "length (relevant_lines s1) = length (relevant_lines s2)")
    case True
    then have "compare_lines 0 (relevant_lines s1) (relevant_lines s2)
        = (relevant_lines s1 = drop 0 (relevant_lines s2))"
      by (intro compare_lines_drop) simp
    with True show ?thesis
      by (simp add: fuzzyEqualIR_def f relevant_lines_def)
  next
    case False
    then show ?thesis
      by (auto simp: fuzzyEqualIR_def f relevant_lines_def)
  qed
qed

section \<open>Properties of the loops of Run\<close>

lemma map_of_update_block:
  "map_of (update_block g (BasicBlock name i) fs) n =
     (if n = name
      then map_option (\<lambda>d. d\<lparr>Blocks := (Blocks d)[i := g (Blocks d ! i)]\<rparr>) (map_of fs name)
      else map_of fs n)"
  by (induction fs) auto

lemma map_of_map_Blocks:
  "map_of (map (\<lambda>(name, d). (name, d\<lparr>Blocks := h (Blocks d)\<rparr>)) fs) n =
     map_option (\<lambda>d. d\<lparr>Blocks := h (Blocks d)\<rparr>) (map_of fs n)"
  by (induction fs) auto

lemma Instructions_CreateAlloca_at_start:
  assumes "map_of (Functions m) name = Some d" and "Blocks d \<noteq> []"
  shows "Instructions (fst (CreateAlloca_at_start m (BasicBlock name 0) ty nm)) (BasicBlock name 0) =
     AllocaInst (NextHandle m) ty nm # Instructions m (BasicBlock name 0)"
  using assms by (simp add: CreateAlloca_at_start_def Let_def map_of_update_block)

lemma lookup_function_Erase:
  "lookup_function (EraseFromParentAsInstruction inst m) f =
     map_option (\<lambda>d. d\<lparr>Blocks := map (removeAll inst) (Blocks d)\<rparr>) (lookup_function m f)"
  by (cases f) (simp_all add: EraseFromParentAsInstruction_def map_of_map_Blocks)

lemma all_instructions_Erase:
  "inst \<notin> set (all_instructions (EraseFromParentAsInstruction inst m))"
  by (auto simp: all_instructions_def EraseFromParentAsInstruction_def)

lemma set_takeWhile_mono:
  "(\<And>x. P x \<Longrightarrow> Q x) \<Longrightarrow> set (takeWhile P xs) \<subseteq> set (takeWhile Q xs)"
  by (induction xs) auto

text \<open>
  The first loop gives the scanned instructions, or the error when one of them is not a direct call.
\<close>

lemma collect_initCalls_closed:
  "collect_initCalls name dummy insts acc =
     (if list_all direct_call (scanned dummy insts) then Inr (acc @ scanned dummy insts)
      else Inl (ErrorString (''expected all instructions in '' @ name @ '' to be direct calls'')))"
  by (induction insts arbitrary: acc) (auto simp: scanned_def direct_call_def)

lemma Run_scan_entry:
  assumes "Instructions m initAll_block \<noteq> []"
  shows "Run_scan m debug =
     Returned (scan_state m debug,
       collect_initCalls ''runtime.initAll'' (new_dummy m)
         (new_dummy m # Instructions m initAll_block) [])"
proof -
  from assms obtain d where d: "map_of (Functions m) ''runtime.initAll'' = Some d"
    and b: "Blocks d \<noteq> []"
    by (auto simp: initAll_block_def split: option.splits if_splits)
  from d b have i: "Instructions (with_dummy m) initAll_block = new_dummy m # Instructions m initAll_block"
    unfolding with_dummy_def initAll_block_def new_dummy_def
    by (rule Instructions_CreateAlloca_at_start)
  from assms obtain x xs where "Instructions m initAll_block = x # xs"
    by (cases "Instructions m initAll_block") auto
  then have f: "FirstInstruction m initAll_block = Some x"
    by (simp add: FirstInstruction_def)
  have c: "CreateAlloca_at_start m initAll_block ''i8'' ''dummy'' = (with_dummy m, new_dummy m)"
    by (simp add: with_dummy_def new_dummy_def CreateAlloca_at_start_def Let_def)
  from d b have "EntryBasicBlock m (FunctionValue ''runtime.initAll'') = Some initAll_block"
    by (simp add: EntryBasicBlock_def initAll_block_def)
  with d f c i show ?thesis
    by (simp add: Run_scan_def NamedFunction_def scan_state_def)
qed

lemma Run_rejects_other_instruction:
  assumes "Instructions m initAll_block \<noteq> []"
    and "x \<in> set (takeWhile (\<lambda>i. IsNil (IsAReturnInst i)) (Instructions m initAll_block))"
    and "x \<noteq> new_dummy m" and "\<not> direct_call x"
  shows "Run ev m debug = Some (Returned (scan_state m debug,
        Some (ErrorString ''expected all instructions in runtime.initAll to be direct calls'')))"
proof -
  let ?insts = "new_dummy m # Instructions m initAll_block"
  have "set (takeWhile (\<lambda>i. IsNil (IsAReturnInst i)) (Instructions m initAll_block))
      \<subseteq> set (takeWhile (\<lambda>i. i = new_dummy m \<or> IsNil (IsAReturnInst i)) (Instructions m initAll_block))"
    by (rule set_takeWhile_mono) simp
  with assms(2,3) have "x \<in> set (scanned (new_dummy m) ?insts)"
    by (auto simp: scanned_def)
  with assms(4) have "\<not> list_all direct_call (scanned (new_dummy m) ?insts)"
    by (auto simp: list_all_iff)
  then have "collect_initCalls ''runtime.initAll'' (new_dummy m) ?insts [] =
      Inl (ErrorString ''expected all instructions in runtime.initAll to be direct calls'')"
    by (simp add: collect_initCalls_closed)
  with assms(1) show ?thesis
    by (simp add: Run_def Run_scan_entry)
qed

text \<open>
  The second loop over two lists in a row: the second list is reached only when the
  loop ran through the first.
\<close>

lemma Run_loop_append:
  "Run_loop ev name e (pre @ rest) =
     (case Run_loop ev name e pre of
        Some (Returned (Completed e1)) \<Rightarrow> Run_loop ev name e1 rest
      | r \<Rightarrow> r)"
proof (induction pre arbitrary: e)
  case Nil
  show ?case by simp
next
  case (Cons call pre)
  show ?case
    by (auto simp: Let_def Cons.IH split: Option.bind_split outcome.split option.split)
qed

lemma Run_loop_reaches:
  assumes "Run_loop ev name e pre = Some (Returned (Completed e1))"
  shows "Run_loop ev name e (pre @ rest) = Run_loop ev name e1 rest"
  using assms by (simp add: Run_loop_append)

lemma Run_loop_stopped:
  assumes "\<forall>e1. Run_loop ev name e pre \<noteq> Some (Returned (Completed e1))"
  shows "Run_loop ev name e (pre @ rest) = Run_loop ev name e pre"
  using assms by (auto simp: Run_loop_append split: option.split outcome.split loop_exit.split)

lemma Run_loop_Cons:
  "HasSuffix (Name (CalledValue call)) ''.init'' \<Longrightarrow>
   Run_loop ev name e (call # rest) =
     Option.bind (Eval_Function ev (erase_call call e) (CalledValue call) init_params (package_of call))
       (\<lambda>r. case r of
          Panicked msg \<Rightarrow> Some (Panicked msg)
        | Returned (e2, retval, err) \<Rightarrow>
            (case err of
               None \<Rightarrow> Run_loop ev name e2 rest
             | Some x \<Rightarrow> Some (Returned (if x = ErrUnreachable then Break e2 else Return e2 x))))"
  by (auto simp: Let_def erase_call_def init_params_def package_of_def
      intro!: Option.bind_cong split: outcome.split option.split)

lemma Run_of_loop:
  assumes "Run_scan m debug = Returned (e0, Inr calls)"
  shows "Run ev m debug =
     Option.bind (Run_loop ev ''runtime.initAll'' e0 calls) (\<lambda>r.
            case r of
              Panicked msg \<Rightarrow> Some (Panicked msg)
            | Returned (Completed e2) \<Rightarrow> Some (Returned (e2, None))
            | Returned (Break e2) \<Rightarrow> Some (Returned (e2, None))
            | Returned (Return e2 err) \<Rightarrow> Some (Returned (e2, Some err)))"
  using assms by (simp add: Run_def)

lemma scanned_dummy_first:
  "scanned dummy (dummy # insts) = scanned dummy insts"
  by (simp add: scanned_def)

lemma Run_of_scanned:
  assumes "Instructions m initAll_block \<noteq> []"
    and "list_all direct_call (scanned (new_dummy m) (Instructions m initAll_block))"
  shows "Run ev m debug =
     Option.bind (Run_loop ev ''runtime.initAll'' (scan_state m debug)
                    (scanned (new_dummy m) (Instructions m initAll_block)))
       (\<lambda>r. case r of
              Panicked msg \<Rightarrow> Some (Panicked msg)
            | Returned (Completed e2) \<Rightarrow> Some (Returned (e2, None))
            | Returned (Break e2) \<Rightarrow> Some (Returned (e2, None))
            | Returned (Return e2 err) \<Rightarrow> Some (Returned (e2, Some err)))"
proof -
  from assms have "Run_scan m debug =
      Returned (scan_state m debug, Inr (scanned (new_dummy m) (Instructions m initAll_block)))"
    by (simp add: Run_scan_entry collect_initCalls_closed scanned_dummy_first)
  then show ?thesis
    by (rule Run_of_loop)
qed

lemma seed_locals_short:
  "i \<le> length params \<Longrightarrow> length params < i + length ps \<Longrightarrow> seed_locals ps params i ls = None"
  by (induction ps arbitrary: i ls) auto

lemma seed_locals_by_position:
  "i + length ps \<le> length params \<Longrightarrow> distinct ps \<Longrightarrow>
   \<exists>ls'. seed_locals ps params i ls = Some ls' \<and>
     (\<forall>j < length ps. ls' (ps ! j) = Some (params ! (i + j))) \<and>
     (\<forall>x. x \<notin> set ps \<longrightarrow> ls' x = ls x)"
proof (induction ps arbitrary: i ls)
  case Nil
  then show ?case by simp
next
  case (Cons p ps)
  from Cons.prems have "Suc i + length ps \<le> length params" and "distinct ps" and p: "p \<notin> set ps"
    by simp_all
  from Cons.IH [OF this(1,2), of "ls(p \<mapsto> params ! i)"]
  obtain ls' where s: "seed_locals ps params (Suc i) (ls(p \<mapsto> params ! i)) = Some ls'"
    and a: "\<forall>j < length ps. ls' (ps ! j) = Some (params ! (Suc i + j))"
    and b: "\<forall>x. x \<notin> set ps \<longrightarrow> ls' x = (ls(p \<mapsto> params ! i)) x"
    by blast
  from Cons.prems s have "seed_locals (p # ps) params i ls = Some ls'"
    by simp
  moreover have "ls' ((p # ps) ! j) = Some (params ! (i + j))" if "j < length (p # ps)" for j
  proof (cases j)
    case 0
    with b p show ?thesis by simp
  next
    case (Suc k)
    with that a show ?thesis by simp
  qed
  moreover have "ls' x = ls x" if "x \<notin> set (p # ps)" for x
    using that b by simp
  ultimately show ?case
    by blast
qed


lemma seed_locals_dom:
  "seed_locals ps params i ls = Some ls' \<Longrightarrow> dom ls' = dom ls \<union> set ps"
  by (induction ps arbitrary: i ls) (auto split: if_splits)




text \<open>
  One round of the block loop, for runs of a given block evaluator.
\<close>

lemma function_loop_case:
  "function_loop ev e fr bb lastBB indent =
     (case ev e fr bb lastBB indent of
        None \<Rightarrow> None
      | Some (Panicked msg) \<Rightarrow> Some (Panicked msg)
      | Some (Returned (e', fr', retval, outgoing, err)) \<Rightarrow>
           (case outgoing of
              None \<Rightarrow> Some (Returned (e', retval, err))
            | Some out \<Rightarrow>
                if 1 < length out then Some (Panicked ''unimplemented: multiple outgoing blocks'')
                else if out = [] then Some (Panicked ''index out of range'')
                else if IsNil (IsABasicBlock (out ! 0))
                  then Some (Panicked ''did not switch to a basic block'')
                else function_loop ev e' fr' (AsBasicBlock (out ! 0)) (Some bb) indent))"
  by (subst function_loop.simps) (simp split: option.split outcome.split)

lemma function_loop_local:
  "function_loop (evalBasicBlock_local v) e fr bb lastBB indent = Some (Returned (e, locals fr v, None))"
  by (subst function_loop.simps) (simp add: evalBasicBlock_local_def)

section \<open>What a run keeps when block evaluation keeps it\<close>

text \<open>
  An invariant of the state that every returning block evaluation preserves is
  preserved by \<^verbatim>\<open>function\<close>, by the second loop of \<^verbatim>\<open>Run\<close> when erasing a call
  preserves it too, and so by \<^verbatim>\<open>Run\<close> when the state of the scan has it.
\<close>

lemma function_loop_preserves:
  assumes p: "preserves ev I"
    and run: "function_loop ev e fr bb lastBB indent = Some y"
  shows "I e \<longrightarrow> (\<forall>e' rv err. y = Returned (e', rv, err) \<longrightarrow> I e')"
proof -
  have "ev = ev \<longrightarrow> I e \<longrightarrow> (\<forall>e' rv err. y = Returned (e', rv, err) \<longrightarrow> I e')"
  proof (rule function_loop.raw_induct [where P = "\<lambda>ev' e fr bb lastBB indent y.
      ev' = ev \<longrightarrow> I e \<longrightarrow> (\<forall>e' rv err. y = Returned (e', rv, err) \<longrightarrow> I e')", OF _ run])
    fix loop :: "'a evalBasicBlock \<Rightarrow> 'a Eval \<Rightarrow> frame \<Rightarrow> BasicBlock \<Rightarrow> BasicBlock option \<Rightarrow> string \<Rightarrow>
       ('a Eval \<times> Value option \<times> error option) outcome option"
    fix ev' :: "'a evalBasicBlock" and e fr bb lastBB indent y
    assume IH: "\<And>ev' e fr bb lastBB indent y. loop ev' e fr bb lastBB indent = Some y \<Longrightarrow>
      ev' = ev \<longrightarrow> I e \<longrightarrow> (\<forall>e' rv err. y = Returned (e', rv, err) \<longrightarrow> I e')"
    assume body: "Option.bind (ev' e fr bb lastBB indent) (\<lambda>r.
       case r of
         Panicked msg \<Rightarrow> Some (Panicked msg)
       | Returned (e', fr', retval, outgoing, err) \<Rightarrow>
           (case outgoing of
              None \<Rightarrow> Some (Returned (e', retval, err))
            | Some out \<Rightarrow>
                if 1 < length out then Some (Panicked ''unimplemented: multiple outgoing blocks'')
                else if out = [] then Some (Panicked ''index out of range'')
                else if IsNil (IsABasicBlock (out ! 0))
                  then Some (Panicked ''did not switch to a basic block'')
                else loop ev' e' fr' (AsBasicBlock (out ! 0)) (Some bb) indent)) = Some y"
    show "ev' = ev \<longrightarrow> I e \<longrightarrow> (\<forall>e' rv err. y = Returned (e', rv, err) \<longrightarrow> I e')"
    proof (intro impI)
      assume same: "ev' = ev" and inv: "I e"
      from body obtain r where r: "ev' e fr bb lastBB indent = Some r"
        by (cases "ev' e fr bb lastBB indent") auto
      show "\<forall>e' rv err. y = Returned (e', rv, err) \<longrightarrow> I e'"
      proof (cases r)
        case (Panicked msg)
        with r body show ?thesis
          by auto
      next
        case (Returned t)
        obtain e1 fr1 rv1 out1 err1 where t: "t = (e1, fr1, rv1, out1, err1)"
          by (cases t) auto
        from p r same Returned t inv have inv1: "I e1"
          unfolding preserves_def by blast
        show ?thesis
        proof (cases out1)
          case None
          with r Returned t body inv1 show ?thesis
            by auto
        next
          case (Some out)
          with r Returned t body
          have "(\<exists>msg. y = Panicked msg) \<or>
              loop ev' e1 fr1 (AsBasicBlock (out ! 0)) (Some bb) indent = Some y"
            by (auto split: if_splits)
          then show ?thesis
          proof
            assume "\<exists>msg. y = Panicked msg"
            then show ?thesis
              by auto
          next
            assume "loop ev' e1 fr1 (AsBasicBlock (out ! 0)) (Some bb) indent = Some y"
            from IH [OF this] same inv1 show ?thesis
              by blast
          qed
        qed
      qed
    qed
  qed
  then show ?thesis
    by simp
qed

lemma Eval_function_preserves:
  assumes "preserves ev I" and "Eval_function ev e f params pkg indent = Some (Returned (e', rv, err))"
    and "I e"
  shows "I e'"
proof -
  from assms(2) obtain fr bb where
    "function_loop ev e fr bb None indent = Some (Returned (e', rv, err))"
    by (auto simp: Eval_function_def split: option.splits)
  from function_loop_preserves [OF assms(1) this] assms(3) show ?thesis
    by blast
qed

lemma Run_loop_preserves:
  assumes p: "preserves ev I"
  shows "\<forall>c \<in> set calls. \<forall>e. I e \<longrightarrow> I (erase_call c e) \<Longrightarrow> I e \<Longrightarrow>
    Run_loop ev name e calls = Some (Returned x) \<Longrightarrow> I (exit_state x)"
proof (induction calls arbitrary: e)
  case Nil
  then show ?case
    by auto
next
  case (Cons c calls)
  show ?case
  proof (cases "HasSuffix (Name (CalledValue c)) ''.init''")
    case False
    with Cons.prems show ?thesis
      by (auto simp: Let_def)
  next
    case True
    from Cons.prems(1,2) have i1: "I (erase_call c e)"
      by simp
    from Cons.prems(3) obtain r where
      r: "Eval_Function ev (erase_call c e) (CalledValue c) init_params (package_of c) = Some r"
      unfolding Run_loop_Cons [OF True]
      by (cases "Eval_Function ev (erase_call c e) (CalledValue c) init_params (package_of c)") auto
    show ?thesis
    proof (cases r)
      case (Panicked msg)
      with r Cons.prems(3) show ?thesis
        unfolding Run_loop_Cons [OF True] by simp
    next
      case (Returned t)
      obtain e2 rv err where t: "t = (e2, rv, err)"
        by (cases t) auto
      from r Returned t have "Eval_function ev (erase_call c e) (CalledValue c) init_params (package_of c) []
          = Some (Returned (e2, rv, err))"
        by (simp add: Eval_Function_def)
      from Eval_function_preserves [OF p this i1] have i2: "I e2" .
      show ?thesis
      proof (cases err)
        case None
        with r Returned t Cons.prems(3) have "Run_loop ev name e2 calls = Some (Returned x)"
          unfolding Run_loop_Cons [OF True] by simp
        with Cons.IH [of e2] Cons.prems(1) i2 show ?thesis
          by simp
      next
        case (Some er)
        with r Returned t Cons.prems(3) i2 show ?thesis
          unfolding Run_loop_Cons [OF True] by (auto split: if_splits)
      qed
    qed
  qed
qed

lemma Run_scan_Returned:
  assumes "Run_scan m debug = Returned (e0, r)"
  shows "Instructions m initAll_block \<noteq> []"
  using assms
  by (auto simp: Run_scan_def NamedFunction_def EntryBasicBlock_def FirstInstruction_def
      initAll_block_def Let_def split: option.splits if_splits list.splits)

lemma Run_Returned:
  fixes e :: "'r Eval"
  assumes "Run ev m debug = Some (Returned (e, err))"
  shows "Instructions m initAll_block \<noteq> [] \<and>
    ((\<not> list_all direct_call (scanned (new_dummy m) (Instructions m initAll_block)) \<and>
      e = scan_state m debug \<and> err \<noteq> None) \<or>
     (\<exists>x. Run_loop ev ''runtime.initAll'' (scan_state m debug)
            (scanned (new_dummy m) (Instructions m initAll_block)) = Some (Returned x) \<and>
          e = exit_state x \<and> (err = None \<longleftrightarrow> (\<forall>e2 er. x \<noteq> Return e2 er))))"
proof -
  have "\<exists>e0 r. Run_scan m debug = Returned (e0 :: 'r Eval, r)"
  proof (cases "Run_scan m debug :: ('r Eval \<times> (error + llvm_value list)) outcome")
    case (Returned t)
    then show ?thesis
      by (cases t) auto
  next
    case (Panicked msg)
    with assms show ?thesis
      by (simp add: Run_def)
  qed
  then obtain e0 :: "'r Eval" and r where s: "Run_scan m debug = Returned (e0, r)"
    by blast
  then have n: "Instructions m initAll_block \<noteq> []"
    by (rule Run_scan_Returned)
  show ?thesis
  proof (cases "list_all direct_call (scanned (new_dummy m) (Instructions m initAll_block))")
    case False
    with n assms show ?thesis
      by (auto simp: Run_def Run_scan_entry collect_initCalls_closed scanned_dummy_first)
  next
    case True
    with n assms Run_of_scanned [of m ev debug] show ?thesis
      by (auto split: Option.bind_splits outcome.splits loop_exit.splits)
  qed
qed

lemma Run_preserves:
  assumes "preserves ev I" and "I (scan_state m debug)"
    and "\<forall>c \<in> set (scanned (new_dummy m) (Instructions m initAll_block)). \<forall>e. I e \<longrightarrow> I (erase_call c e)"
    and "Run ev m debug = Some (Returned (e, err))"
  shows "I e"
  using Run_Returned [OF assms(4)] Run_loop_preserves [OF assms(1,3,2)] assms(2)
  by auto

text \<open>
  The dummy of \<^verbatim>\<open>Run\<close>: the scan puts it into the entry block, no call that the
  second loop erases is the dummy, and erasing another instruction leaves it.
\<close>

lemma takeWhile_removeAll:
  "x \<in> set (takeWhile P xs) \<Longrightarrow> x \<noteq> c \<Longrightarrow> x \<in> set (takeWhile P (removeAll c xs))"
  by (induction xs) (auto split: if_splits)

lemma Instructions_Erase:
  "Instructions (EraseFromParentAsInstruction c m) bb = removeAll c (Instructions m bb)"
  by (cases bb) (auto simp: EraseFromParentAsInstruction_def map_of_map_Blocks split: option.splits)

lemma Instructions_with_dummy:
  assumes "Instructions m initAll_block \<noteq> []"
  shows "Instructions (with_dummy m) initAll_block = new_dummy m # Instructions m initAll_block"
proof -
  from assms obtain d where "map_of (Functions m) ''runtime.initAll'' = Some d" and "Blocks d \<noteq> []"
    by (auto simp: initAll_block_def split: option.splits if_splits)
  then show ?thesis
    unfolding with_dummy_def initAll_block_def new_dummy_def
    by (rule Instructions_CreateAlloca_at_start)
qed

lemma scanned_not_dummy:
  "c \<in> set (scanned dummy insts) \<Longrightarrow> c \<noteq> dummy"
  by (simp add: scanned_def)

lemma dummy_stands_scan:
  assumes "Instructions m initAll_block \<noteq> []"
  shows "dummy_stands m (scan_state m debug)"
proof -
  have "NextHandle (with_dummy m) = Suc (NextHandle m)"
    by (simp add: with_dummy_def CreateAlloca_at_start_def Let_def)
  moreover have "IsNil (IsAReturnInst (new_dummy m))"
    by (simp add: new_dummy_def IsNil_def)
  ultimately show ?thesis
    using Instructions_with_dummy [OF assms]
    by (simp add: dummy_stands_def scan_state_def)
qed

lemma dummy_stands_erase:
  assumes "c \<noteq> new_dummy m" and "dummy_stands m e"
  shows "dummy_stands m (erase_call c e)"
proof -
  have "NextHandle (EraseFromParentAsInstruction c (Mod e)) = NextHandle (Mod e)"
    by (simp add: EraseFromParentAsInstruction_def)
  with assms show ?thesis
    by (simp add: dummy_stands_def erase_call_def Instructions_Erase takeWhile_removeAll)
qed

lemma Run_keeps_dummy:
  assumes "preserves ev (dummy_stands m)" and "Run ev m debug = Some (Returned (e1, err))"
  shows "dummy_stands m e1"
proof -
  from Run_Returned [OF assms(2)] have n: "Instructions m initAll_block \<noteq> []"
    by blast
  have "\<forall>c \<in> set (scanned (new_dummy m) (Instructions m initAll_block)).
      \<forall>e :: 'a Eval. dummy_stands m e \<longrightarrow> dummy_stands m (erase_call c e)"
    using scanned_not_dummy dummy_stands_erase by blast
  with assms(1) dummy_stands_scan [OF n] show ?thesis
    using assms(2) by (rule Run_preserves)
qed

text \<open>
  The dirty-set under a block evaluator that changes it only as \<open>markDirty\<close> does.
\<close>

lemma marks_only_grows:
  "marks_only ev \<Longrightarrow> preserves ev (\<lambda>e. D \<subseteq> dirtyGlobals e)"
  unfolding marks_only_def preserves_def by blast

lemma marks_only_no_constant:
  "marks_only ev \<Longrightarrow>
   preserves ev (\<lambda>e. \<forall>g \<in> dirtyGlobals e. \<not> IsNil (IsAGlobalVariable g) \<and> \<not> IsGlobalConstant g)"
  unfolding marks_only_def preserves_def by blast

text \<open>
  The block evaluator of the examples leaves the module as it is and changes the
  dirty-set through \<open>markDirty\<close> alone.
\<close>

lemma markDirty_Mod:
  "markDirty e v = Returned e' \<Longrightarrow> Mod e' = Mod e"
  using markDirty_Returned [of e v e'] by auto

lemma evalInstructions_Mod:
  "evalInstructions e fr insts = Returned (e', fr', rv, out, err) \<Longrightarrow> Mod e' = Mod e"
proof (induction e fr insts rule: evalInstructions.induct)
  case (3 e fr h d ops rest)
  show ?case
  proof (cases "d = ''store'' \<and> length ops = 2 \<and> d \<noteq> ''unreachable'' \<and> d \<noteq> ''br''")
    case False
    with "3.prems" show ?thesis
      by (auto split: if_splits)
  next
    case True
    with "3.prems" obtain e1 where m: "markDirty e (ops ! 1) = Returned e1"
      and r: "evalInstructions e1 fr rest = Returned (e', fr', rv, out, err)"
      by (auto split: outcome.splits)
    from True m r have "Mod e' = Mod e1"
      by (intro "3.IH") auto
    with markDirty_Mod [OF m] show ?thesis
      by simp
  qed
qed auto

lemma preserves_model:
  assumes "\<And>e e' :: 'r Eval. Mod e' = Mod e \<Longrightarrow> I e \<Longrightarrow> I e'"
  shows "preserves (evalBasicBlock_model :: 'r evalBasicBlock) I"
  unfolding preserves_def evalBasicBlock_model_def
  using assms evalInstructions_Mod by blast

lemma evalInstructions_marks:
  "evalInstructions e fr insts = Returned (e', fr', rv, out, err) \<Longrightarrow>
   dirtyGlobals e \<subseteq> dirtyGlobals e' \<and>
   (\<forall>g \<in> dirtyGlobals e' - dirtyGlobals e. \<not> IsNil (IsAGlobalVariable g) \<and> \<not> IsGlobalConstant g)"
proof (induction e fr insts rule: evalInstructions.induct)
  case (3 e fr h d ops rest)
  show ?case
  proof (cases "d = ''store'' \<and> length ops = 2 \<and> d \<noteq> ''unreachable'' \<and> d \<noteq> ''br''")
    case False
    with "3.prems" show ?thesis
      by (auto split: if_splits)
  next
    case True
    with "3.prems" obtain e1 where m: "markDirty e (ops ! 1) = Returned e1"
      and r: "evalInstructions e1 fr rest = Returned (e', fr', rv, out, err)"
      by (auto split: outcome.splits)
    from True m r have "dirtyGlobals e1 \<subseteq> dirtyGlobals e' \<and>
      (\<forall>g \<in> dirtyGlobals e' - dirtyGlobals e1. \<not> IsNil (IsAGlobalVariable g) \<and> \<not> IsGlobalConstant g)"
      by (intro "3.IH") auto
    moreover from markDirty_Returned [OF m] have "dirtyGlobals e \<subseteq> dirtyGlobals e1 \<and>
      (\<forall>g \<in> dirtyGlobals e1 - dirtyGlobals e. \<not> IsNil (IsAGlobalVariable g) \<and> \<not> IsGlobalConstant g)"
      by (auto simp: IsNil_def)
    ultimately show ?thesis
      by blast
  qed
qed auto

lemma marks_only_model:
  "marks_only (evalBasicBlock_model :: 'r evalBasicBlock)"
  unfolding marks_only_def evalBasicBlock_model_def
  using evalInstructions_marks by blast

section \<open>Nested evaluations under the ceiling\<close>







lemmas example_defs = two_inits_def stops_early_def failing_init_def bad_name_def
  bad_name_unreachable_def not_a_call_def no_inits_def three_params_def example_state_def
  example_module_def init_function_def call_os_def call_main_def call_foo_def store_v1_def
  main_v1_def undefPtr_def

lemmas run_defs = Run_def Run_scan_def NamedFunction_def EntryBasicBlock_def
  FirstInstruction_def CreateAlloca_at_start_def scan_state_def with_dummy_def new_dummy_def
  initAll_block_def IsNil_def Let_def HasSuffix_def Eval_Function_def Eval_function_def
  EraseFromParentAsInstruction_def erase_call_def init_params_def package_of_def
  function_loop_case evalBasicBlock_model_def markDirty.simps OperandsCount_def Operand_def all_instructions_def
  scanned_def direct_call_def



section \<open>The claims\<close>

text \<open>
  C1, as the code has it. Run does not roll back. When the evaluation of a top-level
  init returns an error other than \<^verbatim>\<open>ErrUnreachable\<close>, every init before it having been
  evaluated without error, Run returns that error together with the state exactly as
  the evaluation left it: nothing is restored from a snapshot. The evaluation itself
  started from the module without the call instruction, which was erased first (the
  dirty-set untouched by that), and Run does not put the call back.
\<close>

theorem Run_does_not_roll_back:
  assumes "Run_scan m debug = Returned (e0, Inr (pre @ call # post))"
    and "Run_loop ev ''runtime.initAll'' e0 pre = Some (Returned (Completed e1))"
    and "HasSuffix (Name (CalledValue call)) ''.init''"
    and "Eval_Function ev (erase_call call e1) (CalledValue call) init_params (package_of call)
           = Some (Returned (e2, retval, Some err))"
    and "err \<noteq> ErrUnreachable"
  shows "Run ev m debug = Some (Returned (e2, Some err)) \<and>
         call \<notin> set (all_instructions (Mod (erase_call call e1))) \<and>
         dirtyGlobals (erase_call call e1) = dirtyGlobals e1"
proof -
  from assms(2) have "Run_loop ev ''runtime.initAll'' e0 (pre @ call # post)
      = Run_loop ev ''runtime.initAll'' e1 (call # post)"
    by (rule Run_loop_reaches)
  also have "\<dots> = Some (Returned (Return e2 err))"
    unfolding Run_loop_Cons [OF assms(3)] assms(4) using assms(5) by simp
  finally have "Run_loop ev ''runtime.initAll'' e0 (pre @ call # post) =
           Some (Returned (Return e2 err))" .
  with assms(1) have "Run ev m debug = Some (Returned (e2, Some err))"
    by (simp add: Run_of_loop)
  then show ?thesis
    by (simp add: erase_call_def all_instructions_Erase)
qed

text \<open>
  C1, the run that shows it: one init that stores to the global \<^verbatim>\<open>main.v1\<close> and then
  meets an instruction it cannot evaluate. After Run has returned the error the call
  is gone from the module that held it, and the dirty-set, empty before, holds
  \<^verbatim>\<open>main.v1\<close>.
\<close>

theorem Run_does_not_roll_back_counterexample:
  "Run evalBasicBlock_model failing_init False =
     Some (Returned ((erase_call call_main (scan_state failing_init False))
                       \<lparr>dirtyGlobals := {main_v1}\<rparr> :: nat Eval,
                     Some (ErrorString ''unevaluable''))) \<and>
   call_main \<in> set (all_instructions failing_init) \<and>
   call_main \<notin> set (all_instructions
      (Mod ((erase_call call_main (scan_state failing_init False))\<lparr>dirtyGlobals := {main_v1}\<rparr> :: nat Eval))) \<and>
   dirtyGlobals (scan_state failing_init False :: nat Eval) = {} \<and>
   dirtyGlobals ((erase_call call_main (scan_state failing_init False))\<lparr>dirtyGlobals := {main_v1}\<rparr> :: nat Eval)
     \<noteq> {}"
  by (simp add: run_defs example_defs)

theorem Run_does_not_roll_back_witness:
  "Run_scan failing_init False
     = Returned (scan_state failing_init False :: nat Eval, Inr ([] @ call_main # [])) \<and>
   Eval_Function evalBasicBlock_model (erase_call call_main (scan_state failing_init False :: nat Eval))
       (CalledValue call_main) init_params (package_of call_main)
     = Some (Returned ((erase_call call_main (scan_state failing_init False))\<lparr>dirtyGlobals := {main_v1}\<rparr>,
          None, Some (ErrorString ''unevaluable''))) \<and>
   Run evalBasicBlock_model failing_init False =
     Some (Returned ((erase_call call_main (scan_state failing_init False))
                       \<lparr>dirtyGlobals := {main_v1}\<rparr> :: nat Eval,
                     Some (ErrorString ''unevaluable'')))"
proof -
  let ?e0 = "scan_state failing_init False :: nat Eval"
  let ?e2 = "(erase_call call_main ?e0)\<lparr>dirtyGlobals := {main_v1}\<rparr>"
  have s: "Run_scan failing_init False = Returned (?e0, Inr ([] @ call_main # []))"
    by (simp add: run_defs example_defs)
  have p: "Run_loop evalBasicBlock_model ''runtime.initAll'' ?e0 [] = Some (Returned (Completed ?e0))"
    by simp
  have n: "HasSuffix (Name (CalledValue call_main)) ''.init''"
    by (simp add: HasSuffix_def call_main_def)
  have f: "Eval_Function evalBasicBlock_model (erase_call call_main ?e0)
       (CalledValue call_main) init_params (package_of call_main)
     = Some (Returned (?e2, None, Some (ErrorString ''unevaluable'')))"
    by (simp add: run_defs example_defs)
  have "ErrorString ''unevaluable'' \<noteq> ErrUnreachable"
    by simp
  from Run_does_not_roll_back [OF s p n f this] s f show ?thesis
    by blast
qed

text \<open>
  C2. When the instructions of the entry block before its first return are all
  direct calls, Run is its second loop over exactly these instructions, in the order
  of the block, started in the state of the scan. In that loop, when every earlier
  call has been erased and evaluated without error, the next call is erased from the
  module and only then its callee is evaluated, on the state the earlier inits left;
  what follows it is evaluated on the state this evaluation leaves. When the loop did
  not run through the earlier calls, the later call is not reached at all: the result
  is that of the earlier calls.
\<close>

theorem Run_evaluates_in_order:
  "(Instructions m initAll_block \<noteq> [] \<and>
    list_all direct_call (scanned (new_dummy m) (Instructions m initAll_block)) \<longrightarrow>
      Run ev m debug =
        Option.bind (Run_loop ev ''runtime.initAll'' (scan_state m debug)
                       (scanned (new_dummy m) (Instructions m initAll_block)))
          (\<lambda>r. case r of
                 Panicked msg \<Rightarrow> Some (Panicked msg)
               | Returned (Completed e2) \<Rightarrow> Some (Returned (e2, None))
               | Returned (Break e2) \<Rightarrow> Some (Returned (e2, None))
               | Returned (Return e2 err) \<Rightarrow> Some (Returned (e2, Some err)))) \<and>
   (Run_loop ev name e pre = Some (Returned (Completed e1)) \<and>
    HasSuffix (Name (CalledValue call)) ''.init'' \<longrightarrow>
      call \<notin> set (all_instructions (Mod (erase_call call e1))) \<and>
      Run_loop ev name e (pre @ call # post) =
        Option.bind
          (Eval_Function ev (erase_call call e1) (CalledValue call) init_params (package_of call))
          (\<lambda>r. case r of
             Panicked msg \<Rightarrow> Some (Panicked msg)
           | Returned (e2, retval, err) \<Rightarrow>
               (case err of
                  None \<Rightarrow> Run_loop ev name e2 post
                | Some x \<Rightarrow> Some (Returned (if x = ErrUnreachable then Break e2 else Return e2 x))))) \<and>
   ((\<forall>e1. Run_loop ev name e pre \<noteq> Some (Returned (Completed e1))) \<longrightarrow>
      Run_loop ev name e (pre @ call # post) = Run_loop ev name e pre)"
proof (intro conjI impI)
  assume "Instructions m initAll_block \<noteq> [] \<and>
    list_all direct_call (scanned (new_dummy m) (Instructions m initAll_block))"
  then show "Run ev m debug =
        Option.bind (Run_loop ev ''runtime.initAll'' (scan_state m debug)
                       (scanned (new_dummy m) (Instructions m initAll_block)))
          (\<lambda>r. case r of
                 Panicked msg \<Rightarrow> Some (Panicked msg)
               | Returned (Completed e2) \<Rightarrow> Some (Returned (e2, None))
               | Returned (Break e2) \<Rightarrow> Some (Returned (e2, None))
               | Returned (Return e2 err) \<Rightarrow> Some (Returned (e2, Some err)))"
    using Run_of_scanned [of m ev debug] by blast
next
  show "call \<notin> set (all_instructions (Mod (erase_call call e1)))"
    by (simp add: erase_call_def all_instructions_Erase)
next
  assume a: "Run_loop ev name e pre = Some (Returned (Completed e1)) \<and>
    HasSuffix (Name (CalledValue call)) ''.init''"
  then have "Run_loop ev name e (pre @ call # post) = Run_loop ev name e1 (call # post)"
    by (simp add: Run_loop_reaches)
  with a show "Run_loop ev name e (pre @ call # post) =
        Option.bind
          (Eval_Function ev (erase_call call e1) (CalledValue call) init_params (package_of call))
          (\<lambda>r. case r of
             Panicked msg \<Rightarrow> Some (Panicked msg)
           | Returned (e2, retval, err) \<Rightarrow>
               (case err of
                  None \<Rightarrow> Run_loop ev name e2 post
                | Some x \<Rightarrow> Some (Returned (if x = ErrUnreachable then Break e2 else Return e2 x))))"
    by (simp only: Run_loop_Cons)
next
  assume "\<forall>e1. Run_loop ev name e pre \<noteq> Some (Returned (Completed e1))"
  then show "Run_loop ev name e (pre @ call # post) = Run_loop ev name e pre"
    by (rule Run_loop_stopped)
qed

theorem Run_evaluates_in_order_witness:
  "scanned (new_dummy two_inits) (Instructions two_inits initAll_block) = [call_os, call_main] \<and>
   Run evalBasicBlock_model two_inits False
     = Some (Returned ((erase_call call_main (erase_call call_os (scan_state two_inits False)))
            \<lparr>dirtyGlobals := {main_v1}\<rparr> :: nat Eval, None)) \<and>
   Run_loop evalBasicBlock_model ''runtime.initAll'' (scan_state two_inits False :: nat Eval) [call_os]
     = Some (Returned (Completed (erase_call call_os (scan_state two_inits False)))) \<and>
   call_main \<notin> set (all_instructions
      (Mod (erase_call call_main (erase_call call_os (scan_state two_inits False :: nat Eval))))) \<and>
   Run_loop evalBasicBlock_model ''runtime.initAll'' (scan_state two_inits False :: nat Eval)
       ([call_os] @ call_main # [])
     = Some (Returned (Completed
         ((erase_call call_main (erase_call call_os (scan_state two_inits False)))
            \<lparr>dirtyGlobals := {main_v1}\<rparr>))) \<and>
   Run_loop evalBasicBlock_model ''runtime.initAll'' (scan_state stops_early False :: nat Eval)
       ([call_os] @ call_main # [])
     = Some (Returned (Break (erase_call call_os (scan_state stops_early False))))"
proof -
  let ?a = "scan_state two_inits False :: nat Eval"
  let ?b = "scan_state stops_early False :: nat Eval"
  let ?fin = "(erase_call call_main (erase_call call_os ?a))\<lparr>dirtyGlobals := {main_v1}\<rparr>"
  have c: "scanned (new_dummy two_inits) (Instructions two_inits initAll_block) = [call_os, call_main]"
    by (simp add: run_defs example_defs)
  have d: "Instructions two_inits initAll_block \<noteq> [] \<and>
    list_all direct_call (scanned (new_dummy two_inits) (Instructions two_inits initAll_block))"
    unfolding c by (simp add: run_defs example_defs)
  have p: "Run_loop evalBasicBlock_model ''runtime.initAll'' ?a [call_os]
     = Some (Returned (Completed (erase_call call_os ?a)))"
    by (simp add: run_defs example_defs)
  have n: "HasSuffix (Name (CalledValue call_main)) ''.init''"
    by (simp add: HasSuffix_def call_main_def)
  have f: "Eval_Function evalBasicBlock_model (erase_call call_main (erase_call call_os ?a))
       (CalledValue call_main) init_params (package_of call_main)
     = Some (Returned (?fin, None, None))"
    by (simp add: run_defs example_defs)
  have q: "Run_loop evalBasicBlock_model ''runtime.initAll'' ?b [call_os]
     = Some (Returned (Break (erase_call call_os ?b)))"
    by (simp add: run_defs example_defs)
  then have s: "\<forall>e1. Run_loop evalBasicBlock_model ''runtime.initAll'' ?b [call_os]
     \<noteq> Some (Returned (Completed e1))"
    by simp
  note t = Run_evaluates_in_order [of two_inits evalBasicBlock_model False
      "''runtime.initAll''" ?a "[call_os]" "erase_call call_os ?a" call_main "[]"]
  note u = Run_evaluates_in_order [of two_inits evalBasicBlock_model False
      "''runtime.initAll''" ?b "[call_os]" "erase_call call_os ?a" call_main "[]"]
  from t p n have 2: "call_main \<notin> set (all_instructions
      (Mod (erase_call call_main (erase_call call_os ?a))))"
    by blast
  from t p n have "Run_loop evalBasicBlock_model ''runtime.initAll'' ?a ([call_os] @ call_main # []) =
        Option.bind
          (Eval_Function evalBasicBlock_model (erase_call call_main (erase_call call_os ?a))
             (CalledValue call_main) init_params (package_of call_main))
          (\<lambda>r. case r of
             Panicked msg \<Rightarrow> Some (Panicked msg)
           | Returned (e2, retval, err) \<Rightarrow>
               (case err of
                  None \<Rightarrow> Run_loop evalBasicBlock_model ''runtime.initAll'' e2 []
                | Some x \<Rightarrow> Some (Returned (if x = ErrUnreachable then Break e2 else Return e2 x))))"
    by blast
  then have 3: "Run_loop evalBasicBlock_model ''runtime.initAll'' ?a ([call_os] @ call_main # [])
     = Some (Returned (Completed ?fin))"
    unfolding f by simp
  from t d have "Run evalBasicBlock_model two_inits False =
        Option.bind (Run_loop evalBasicBlock_model ''runtime.initAll'' ?a
                       (scanned (new_dummy two_inits) (Instructions two_inits initAll_block)))
          (\<lambda>r. case r of
                 Panicked msg \<Rightarrow> Some (Panicked msg)
               | Returned (Completed e2) \<Rightarrow> Some (Returned (e2, None))
               | Returned (Break e2) \<Rightarrow> Some (Returned (e2, None))
               | Returned (Return e2 err) \<Rightarrow> Some (Returned (e2, Some err)))"
    by blast
  with 3 have 1: "Run evalBasicBlock_model two_inits False = Some (Returned (?fin, None))"
    unfolding c by simp
  from u s have "Run_loop evalBasicBlock_model ''runtime.initAll'' ?b ([call_os] @ call_main # [])
     = Run_loop evalBasicBlock_model ''runtime.initAll'' ?b [call_os]"
    by blast
  with q have 4: "Run_loop evalBasicBlock_model ''runtime.initAll'' ?b ([call_os] @ call_main # [])
     = Some (Returned (Break (erase_call call_os ?b)))"
    by simp
  from c 1 p 2 3 4 show ?thesis
    by blast
qed

text \<open>
  C3. When the evaluation of an init returns \<^verbatim>\<open>ErrUnreachable\<close>, the loop is left by
  \<^verbatim>\<open>break\<close> and Run returns nil; when it returns any other error, Run returns that
  error. In both cases the state is the one this evaluation left, whatever calls come
  after it in the list: none of them is evaluated.
\<close>

theorem Run_stops_at_error:
  assumes "Run_scan m debug = Returned (e0, Inr (pre @ call # post))"
    and "Run_loop ev ''runtime.initAll'' e0 pre = Some (Returned (Completed e1))"
    and "HasSuffix (Name (CalledValue call)) ''.init''"
    and "Eval_Function ev (erase_call call e1) (CalledValue call) init_params (package_of call)
           = Some (Returned (e2, retval, Some err))"
  shows "Run_loop ev ''runtime.initAll'' e0 (pre @ call # post) =
           Some (Returned (if err = ErrUnreachable then Break e2 else Return e2 err)) \<and>
         Run ev m debug = Some (Returned (e2, if err = ErrUnreachable then None else Some err))"
proof -
  from assms(2) have "Run_loop ev ''runtime.initAll'' e0 (pre @ call # post)
      = Run_loop ev ''runtime.initAll'' e1 (call # post)"
    by (rule Run_loop_reaches)
  also have "\<dots> = Some (Returned (if err = ErrUnreachable then Break e2 else Return e2 err))"
    unfolding Run_loop_Cons [OF assms(3)] assms(4) by simp
  finally have l: "Run_loop ev ''runtime.initAll'' e0 (pre @ call # post) =
           Some (Returned (if err = ErrUnreachable then Break e2 else Return e2 err))" .
  with assms(1) show ?thesis
    by (simp add: Run_of_loop)
qed

theorem Run_stops_at_error_witness:
  "Run_scan stops_early False
     = Returned (scan_state stops_early False :: nat Eval, Inr ([] @ call_os # [call_main])) \<and>
   Eval_Function evalBasicBlock_model (erase_call call_os (scan_state stops_early False :: nat Eval))
       (CalledValue call_os) init_params (package_of call_os)
     = Some (Returned (erase_call call_os (scan_state stops_early False), None, Some ErrUnreachable)) \<and>
   Run evalBasicBlock_model stops_early False
     = Some (Returned (erase_call call_os (scan_state stops_early False :: nat Eval), None)) \<and>
   call_main \<in> set (all_instructions (Mod (erase_call call_os (scan_state stops_early False :: nat Eval)))) \<and>
   Run evalBasicBlock_model failing_init False =
     Some (Returned ((erase_call call_main (scan_state failing_init False))
                       \<lparr>dirtyGlobals := {main_v1}\<rparr> :: nat Eval,
                     Some (ErrorString ''unevaluable'')))"
proof -
  let ?e0 = "scan_state stops_early False :: nat Eval"
  have s: "Run_scan stops_early False = Returned (?e0, Inr ([] @ call_os # [call_main]))"
    by (simp add: run_defs example_defs)
  have p: "Run_loop evalBasicBlock_model ''runtime.initAll'' ?e0 [] = Some (Returned (Completed ?e0))"
    by simp
  have n: "HasSuffix (Name (CalledValue call_os)) ''.init''"
    by (simp add: HasSuffix_def call_os_def)
  have f: "Eval_Function evalBasicBlock_model (erase_call call_os ?e0)
       (CalledValue call_os) init_params (package_of call_os)
     = Some (Returned (erase_call call_os ?e0, None, Some ErrUnreachable))"
    by (simp add: run_defs example_defs)
  from Run_stops_at_error [OF s p n f]
  have 1: "Run evalBasicBlock_model stops_early False = Some (Returned (erase_call call_os ?e0, None))"
    by simp
  have 2: "call_main \<in> set (all_instructions (Mod (erase_call call_os ?e0)))"
    by (simp add: run_defs example_defs)
  let ?f0 = "scan_state failing_init False :: nat Eval"
  let ?f2 = "(erase_call call_main ?f0)\<lparr>dirtyGlobals := {main_v1}\<rparr>"
  have s': "Run_scan failing_init False = Returned (?f0, Inr ([] @ call_main # []))"
    by (simp add: run_defs example_defs)
  have p': "Run_loop evalBasicBlock_model ''runtime.initAll'' ?f0 [] = Some (Returned (Completed ?f0))"
    by simp
  have n': "HasSuffix (Name (CalledValue call_main)) ''.init''"
    by (simp add: HasSuffix_def call_main_def)
  have f': "Eval_Function evalBasicBlock_model (erase_call call_main ?f0)
       (CalledValue call_main) init_params (package_of call_main)
     = Some (Returned (?f2, None, Some (ErrorString ''unevaluable'')))"
    by (simp add: run_defs example_defs)
  from Run_stops_at_error [OF s' p' n' f']
  have 3: "Run evalBasicBlock_model failing_init False
      = Some (Returned (?f2, Some (ErrorString ''unevaluable'')))"
    by simp
  from s f 1 2 3 show ?thesis
    by blast
qed

text \<open>
  C4. For a global variable \<open>g\<close>: when \<open>g\<close> is not a global constant and not yet in
  the dirty-set, \<open>markDirty\<close> adds it and sets the cache \<open>sideEffectFuncs\<close> to nil in
  the same step; when it is in the dirty-set already (or is a global constant) the
  state stays as it is. On a constant with at least two operands whose first operand
  is the global variable \<open>g\<close>, \<open>markDirty\<close> does what it does on \<open>g\<close>.
\<close>

theorem markDirty_invalidates_cache:
  "\<not> IsNil (IsAGlobalVariable g) \<Longrightarrow>
     markDirty e g =
       (if IsGlobalConstant g \<or> g \<in> dirtyGlobals e then Returned e
        else Returned (e\<lparr>dirtyGlobals := insert g (dirtyGlobals e), sideEffectFuncs := None\<rparr>)) \<and>
     (\<forall>v. IsNil (IsAGlobalVariable v) \<and> IsConstant v \<and> 2 \<le> OperandsCount v \<and> Operand v 0 = g
        \<longrightarrow> markDirty e v = markDirty e g)"
proof -
  assume g: "\<not> IsNil (IsAGlobalVariable g)"
  then obtain n c where "g = GlobalVariable n c"
    using IsAGlobalVariable_cases by blast
  then have "markDirty e g =
       (if IsGlobalConstant g \<or> g \<in> dirtyGlobals e then Returned e
        else Returned (e\<lparr>dirtyGlobals := insert g (dirtyGlobals e), sideEffectFuncs := None\<rparr>))"
    by (simp add: markDirty_GlobalVariable)
  moreover have "markDirty e v = markDirty e g"
    if "IsNil (IsAGlobalVariable v) \<and> IsConstant v \<and> 2 \<le> OperandsCount v \<and> Operand v 0 = g" for v
    using that g by (simp add: markDirty_no_global)
  ultimately show ?thesis
    by blast
qed

theorem markDirty_invalidates_cache_witness:
  "\<not> IsNil (IsAGlobalVariable main_v1) \<and>
   markDirty example_state main_v1
     = Returned (example_state\<lparr>dirtyGlobals := {main_v1}, sideEffectFuncs := None\<rparr>) \<and>
   markDirty (example_state\<lparr>dirtyGlobals := {main_v1}\<rparr>) main_v1
     = Returned (example_state\<lparr>dirtyGlobals := {main_v1}\<rparr>) \<and>
   markDirty example_state
       (Constant ''getelementptr'' [main_v1, Constant ''i32 0'' [], Constant ''i32 1'' []])
     = Returned (example_state\<lparr>dirtyGlobals := {main_v1}, sideEffectFuncs := None\<rparr>)"
proof -
  have h: "\<not> IsNil (IsAGlobalVariable main_v1)"
    by (simp add: main_v1_def IsNil_def)
  have a: "markDirty example_state main_v1
      = Returned (example_state\<lparr>dirtyGlobals := {main_v1}, sideEffectFuncs := None\<rparr>)"
    using markDirty_invalidates_cache [OF h, of example_state]
    by (simp add: main_v1_def example_state_def)
  have b: "markDirty (example_state\<lparr>dirtyGlobals := {main_v1}\<rparr>) main_v1
      = Returned (example_state\<lparr>dirtyGlobals := {main_v1}\<rparr>)"
    using markDirty_invalidates_cache [OF h, of "example_state\<lparr>dirtyGlobals := {main_v1}\<rparr>"]
    by (simp add: main_v1_def)
  have c: "markDirty example_state
       (Constant ''getelementptr'' [main_v1, Constant ''i32 0'' [], Constant ''i32 1'' []])
      = markDirty example_state main_v1"
    using markDirty_invalidates_cache [OF h, of example_state]
    by (simp add: IsNil_def OperandsCount_def Operand_def)
  from h a b c show ?thesis
    by simp
qed

text \<open>
  C5, as the code has it. When an instruction of the entry block of
  \<^verbatim>\<open>runtime.initAll\<close> before its first return is not a direct call of a function, Run
  returns an error in the state of the scan: no init has been evaluated. A callee
  whose name does not end with \<^verbatim>\<open>.init\<close> is found only when the second loop reaches
  its call: the error is returned once every earlier init has been erased and
  evaluated without error. For a call that is accepted, the package name given to the
  evaluation is the name of the callee without its last five characters, the suffix
  \<^verbatim>\<open>.init\<close>.
\<close>

theorem Run_checks_calls:
  "(Instructions m initAll_block \<noteq> [] \<and>
    x \<in> set (takeWhile (\<lambda>i. IsNil (IsAReturnInst i)) (Instructions m initAll_block)) \<and>
    x \<noteq> new_dummy m \<and> \<not> direct_call x \<longrightarrow>
      Run ev m debug = Some (Returned (scan_state m debug,
        Some (ErrorString ''expected all instructions in runtime.initAll to be direct calls'')))) \<and>
   (Run_loop ev name e pre = Some (Returned (Completed e1)) \<and>
    \<not> HasSuffix (Name (CalledValue call)) ''.init'' \<longrightarrow>
      Run_loop ev name e (pre @ call # post) =
        Some (Returned (Return e1
          (ErrorString (''expected all instructions in '' @ name @ '' to be *.init() calls''))))) \<and>
   (HasSuffix (Name (CalledValue call)) ''.init'' \<longrightarrow>
      package_of call @ ''.init'' = Name (CalledValue call) \<and>
      Run_loop ev name e (call # post) =
        Option.bind
          (Eval_Function ev (erase_call call e) (CalledValue call) init_params (package_of call))
          (\<lambda>r. case r of
             Panicked msg \<Rightarrow> Some (Panicked msg)
           | Returned (e2, retval, err) \<Rightarrow>
               (case err of
                  None \<Rightarrow> Run_loop ev name e2 post
                | Some x \<Rightarrow> Some (Returned (if x = ErrUnreachable then Break e2 else Return e2 x)))))"
proof (intro conjI impI)
  assume "Instructions m initAll_block \<noteq> [] \<and>
    x \<in> set (takeWhile (\<lambda>i. IsNil (IsAReturnInst i)) (Instructions m initAll_block)) \<and>
    x \<noteq> new_dummy m \<and> \<not> direct_call x"
  then show "Run ev m debug = Some (Returned (scan_state m debug,
        Some (ErrorString ''expected all instructions in runtime.initAll to be direct calls'')))"
    using Run_rejects_other_instruction [of m x ev debug] by blast
next
  assume a: "Run_loop ev name e pre = Some (Returned (Completed e1)) \<and>
    \<not> HasSuffix (Name (CalledValue call)) ''.init''"
  then have "Run_loop ev name e (pre @ call # post) = Run_loop ev name e1 (call # post)"
    by (simp add: Run_loop_reaches)
  with a show "Run_loop ev name e (pre @ call # post) =
        Some (Returned (Return e1
          (ErrorString (''expected all instructions in '' @ name @ '' to be *.init() calls''))))"
    by (simp add: Let_def)
next
  assume a: "HasSuffix (Name (CalledValue call)) ''.init''"
  have len: "length ''.init'' = 5"
    by simp
  from a have "drop (length (Name (CalledValue call)) - 5) (Name (CalledValue call)) = ''.init''"
    unfolding HasSuffix_def len by blast
  then have "take (length (Name (CalledValue call)) - 5) (Name (CalledValue call)) @ ''.init''
      = Name (CalledValue call)"
    by (metis append_take_drop_id)
  then show "package_of call @ ''.init'' = Name (CalledValue call)"
    by (simp only: package_of_def)
  from a show "Run_loop ev name e (call # post) =
        Option.bind
          (Eval_Function ev (erase_call call e) (CalledValue call) init_params (package_of call))
          (\<lambda>r. case r of
             Panicked msg \<Rightarrow> Some (Panicked msg)
           | Returned (e2, retval, err) \<Rightarrow>
               (case err of
                  None \<Rightarrow> Run_loop ev name e2 post
                | Some x \<Rightarrow> Some (Returned (if x = ErrUnreachable then Break e2 else Return e2 x))))"
    by (rule Run_loop_Cons)
qed

text \<open>
  C5, the runs that show it: \<^verbatim>\<open>runtime.initAll\<close> calls \<^verbatim>\<open>main.init\<close> and then
  \<^verbatim>\<open>foo\<close>. Run returns the error about \<^verbatim>\<open>foo\<close> after it has erased the call of
  \<^verbatim>\<open>main.init\<close> and evaluated it (the dirty-set holds \<^verbatim>\<open>main.v1\<close>); and when
  \<^verbatim>\<open>main.init\<close> runs into \<^verbatim>\<open>unreachable\<close>, Run returns nil and never looks at
  \<^verbatim>\<open>foo\<close>.
\<close>

theorem Run_checks_calls_counterexample:
  "Run evalBasicBlock_model bad_name False =
     Some (Returned ((erase_call call_main (scan_state bad_name False))
                       \<lparr>dirtyGlobals := {main_v1}\<rparr> :: nat Eval,
                     Some (ErrorString ''expected all instructions in runtime.initAll to be *.init() calls''))) \<and>
   call_main \<in> set (all_instructions bad_name) \<and>
   call_main \<notin> set (all_instructions (Mod (erase_call call_main (scan_state bad_name False) :: nat Eval))) \<and>
   \<not> HasSuffix (Name (CalledValue call_foo)) ''.init'' \<and>
   Run evalBasicBlock_model bad_name_unreachable False =
     Some (Returned (erase_call call_main (scan_state bad_name_unreachable False) :: nat Eval, None))"
  by (simp add: run_defs example_defs)

theorem Run_checks_calls_witness:
  "store_v1 \<in> set (takeWhile (\<lambda>i. IsNil (IsAReturnInst i)) (Instructions not_a_call initAll_block)) \<and>
   \<not> direct_call store_v1 \<and>
   Run evalBasicBlock_model not_a_call False =
     Some (Returned (scan_state not_a_call False :: nat Eval,
        Some (ErrorString ''expected all instructions in runtime.initAll to be direct calls''))) \<and>
   Run_loop evalBasicBlock_model ''runtime.initAll'' (scan_state bad_name False :: nat Eval) [call_main]
     = Some (Returned (Completed
         ((erase_call call_main (scan_state bad_name False))\<lparr>dirtyGlobals := {main_v1}\<rparr>))) \<and>
   Run_loop evalBasicBlock_model ''runtime.initAll'' (scan_state bad_name False :: nat Eval)
       ([call_main] @ call_foo # [])
     = Some (Returned (Return
         ((erase_call call_main (scan_state bad_name False))\<lparr>dirtyGlobals := {main_v1}\<rparr>)
         (ErrorString ''expected all instructions in runtime.initAll to be *.init() calls''))) \<and>
   HasSuffix (Name (CalledValue call_main)) ''.init'' \<and>
   package_of call_main = ''main''"
proof -
  let ?e = "scan_state bad_name False :: nat Eval"
  let ?e1 = "(erase_call call_main ?e)\<lparr>dirtyGlobals := {main_v1}\<rparr>"
  have h1: "Instructions not_a_call initAll_block \<noteq> [] \<and>
    store_v1 \<in> set (takeWhile (\<lambda>i. IsNil (IsAReturnInst i)) (Instructions not_a_call initAll_block)) \<and>
    store_v1 \<noteq> new_dummy not_a_call \<and> \<not> direct_call store_v1"
    by (simp add: run_defs example_defs)
  have h2: "Run_loop evalBasicBlock_model ''runtime.initAll'' ?e [call_main] = Some (Returned (Completed ?e1))"
    by (simp add: run_defs example_defs)
  have h3: "\<not> HasSuffix (Name (CalledValue call_foo)) ''.init''"
    by (simp add: HasSuffix_def call_foo_def)
  have h4: "HasSuffix (Name (CalledValue call_main)) ''.init''"
    by (simp add: HasSuffix_def call_main_def)
  note t = Run_checks_calls [of not_a_call store_v1 evalBasicBlock_model False
      "''runtime.initAll''" ?e "[call_main]" ?e1 call_foo "[]"]
  note u = Run_checks_calls [of not_a_call store_v1 evalBasicBlock_model False
      "''runtime.initAll''" ?e "[call_main]" ?e1 call_main "[]"]
  from t h1 have 1: "Run evalBasicBlock_model not_a_call False =
     Some (Returned (scan_state not_a_call False :: nat Eval,
        Some (ErrorString ''expected all instructions in runtime.initAll to be direct calls'')))"
    by blast
  from t h2 h3 have 2: "Run_loop evalBasicBlock_model ''runtime.initAll'' ?e ([call_main] @ call_foo # [])
     = Some (Returned (Return ?e1
         (ErrorString (''expected all instructions in '' @ ''runtime.initAll'' @ '' to be *.init() calls''))))"
    by blast
  from u h4 have "package_of call_main @ ''.init'' = Name (CalledValue call_main)"
    by blast
  then have 3: "package_of call_main = ''main''"
    by (simp add: call_main_def)
  from h1 1 h2 2 h4 3 show ?thesis
    by simp
qed

text \<open>
  C6, as the code has it. Run is not idempotent. Run puts its dummy alloca into
  the entry block of \<^verbatim>\<open>runtime.initAll\<close> and none of its own steps takes it out
  again or reuses its identity. So, for every block evaluator that leaves the dummy
  standing (a block evaluation that returns, begun in a state where the dummy stands
  in the entry block before the first return and the next instruction identity of
  the module lies beyond the dummy's, ends in such a state): a Run that has succeeded
  leaves its dummy standing, and a second Run on the module it left returns the error
  \<^verbatim>\<open>expected all instructions in runtime.initAll to be direct calls\<close> in the state
  of its scan, without evaluating an init, and it changes the module once more: it
  adds a dummy of its own.
\<close>

theorem Run_again_is_rejected:
  assumes "preserves ev (dummy_stands m)"
    and "Run ev m debug = Some (Returned (e1, None))"
  shows "dummy_stands m e1 \<and>
         Run ev (Mod e1) debug =
           Some (Returned (scan_state (Mod e1) debug,
             Some (ErrorString ''expected all instructions in runtime.initAll to be direct calls''))) \<and>
         Mod (scan_state (Mod e1) debug :: 'r Eval) = with_dummy (Mod e1) \<and>
         with_dummy (Mod e1) \<noteq> Mod e1"
proof -
  from assms have s: "dummy_stands m e1"
    by (rule Run_keeps_dummy)
  then have in_block: "new_dummy m \<in> set (takeWhile (\<lambda>i. IsNil (IsAReturnInst i))
      (Instructions (Mod e1) initAll_block))"
    and fresh: "NextHandle m < NextHandle (Mod e1)"
    by (simp_all add: dummy_stands_def)
  from in_block have n: "Instructions (Mod e1) initAll_block \<noteq> []"
    by auto
  have d: "\<not> direct_call (new_dummy m)"
    by (simp add: direct_call_def new_dummy_def IsNil_def)
  from fresh have "new_dummy m \<noteq> new_dummy (Mod e1)"
    by (simp add: new_dummy_def)
  with n in_block d have "Run ev (Mod e1) debug =
           Some (Returned (scan_state (Mod e1) debug,
             Some (ErrorString ''expected all instructions in runtime.initAll to be direct calls'')))"
    using Run_rejects_other_instruction [of "Mod e1" "new_dummy m" ev debug] by blast
  moreover have "NextHandle (with_dummy (Mod e1)) \<noteq> NextHandle (Mod e1)"
    by (simp add: with_dummy_def CreateAlloca_at_start_def Let_def)
  then have "with_dummy (Mod e1) \<noteq> Mod e1"
    by auto
  ultimately show ?thesis
    using s by (simp add: scan_state_def)
qed

text \<open>
  C6, the run that shows it: \<^verbatim>\<open>runtime.initAll\<close> is \<^verbatim>\<open>ret void\<close> alone. The first
  Run succeeds; the second, on the module the first one left, returns the error and
  leaves another module.
\<close>

theorem Run_again_is_rejected_counterexample:
  "Run evalBasicBlock_model no_inits False
     = Some (Returned (scan_state no_inits False :: nat Eval, None)) \<and>
   Run evalBasicBlock_model (Mod (scan_state no_inits False :: nat Eval)) False
     = Some (Returned (scan_state (with_dummy no_inits) False :: nat Eval,
         Some (ErrorString ''expected all instructions in runtime.initAll to be direct calls''))) \<and>
   Mod (scan_state (with_dummy no_inits) False :: nat Eval) \<noteq> Mod (scan_state no_inits False :: nat Eval)"
  by (simp add: run_defs example_defs)

theorem Run_again_is_rejected_witness:
  "preserves (evalBasicBlock_model :: nat evalBasicBlock) (dummy_stands two_inits) \<and>
   Run evalBasicBlock_model two_inits False
     = Some (Returned ((erase_call call_main (erase_call call_os (scan_state two_inits False)))
            \<lparr>dirtyGlobals := {main_v1}\<rparr> :: nat Eval, None)) \<and>
   dummy_stands two_inits
     ((erase_call call_main (erase_call call_os (scan_state two_inits False)))
            \<lparr>dirtyGlobals := {main_v1}\<rparr> :: nat Eval) \<and>
   Run evalBasicBlock_model
       (Mod (erase_call call_main (erase_call call_os (scan_state two_inits False :: nat Eval)))) False
     = Some (Returned (scan_state
          (Mod (erase_call call_main (erase_call call_os (scan_state two_inits False :: nat Eval)))) False
           :: nat Eval,
         Some (ErrorString ''expected all instructions in runtime.initAll to be direct calls'')))"
proof -
  let ?e1 = "(erase_call call_main (erase_call call_os (scan_state two_inits False)))
            \<lparr>dirtyGlobals := {main_v1}\<rparr> :: nat Eval"
  have m: "Mod ?e1 = Mod (erase_call call_main (erase_call call_os (scan_state two_inits False :: nat Eval)))"
    by simp
  have p: "preserves (evalBasicBlock_model :: nat evalBasicBlock) (dummy_stands two_inits)"
    by (rule preserves_model) (simp add: dummy_stands_def)
  have r: "Run evalBasicBlock_model two_inits False = Some (Returned (?e1, None))"
    by (simp add: run_defs example_defs)
  from Run_again_is_rejected [OF p r] p r show ?thesis
    unfolding m by blast
qed




text \<open>
  C8. \<open>filterIrrelevantIRLines\<close> removes exactly the irrelevant lines: the empty
  ones, those whose first character is a semicolon and those that begin with
  \<^verbatim>\<open>source_filename = \<close>. \<open>fuzzyEqualIR\<close> is true exactly when the relevant lines of
  the two texts are equally many and equal line by line. Hence it is reflexive and
  symmetric.
\<close>

theorem fuzzyEqualIR_compares_relevant_lines:
  "filterIrrelevantIRLines ls = filter (\<lambda>l. \<not> irrelevant_line l) ls \<and>
   fuzzyEqualIR s1 s2 =
     (length (relevant_lines s1) = length (relevant_lines s2) \<and>
      (\<forall>i < length (relevant_lines s1). relevant_lines s1 ! i = relevant_lines s2 ! i)) \<and>
   fuzzyEqualIR s1 s1 \<and>
   fuzzyEqualIR s1 s2 = fuzzyEqualIR s2 s1"
proof (intro conjI)
  show "filterIrrelevantIRLines ls = filter (\<lambda>l. \<not> irrelevant_line l) ls"
    by (simp add: filterIrrelevantIRLines_def filterIrrelevantIRLines_loop_filter)
  show "fuzzyEqualIR s1 s2 =
     (length (relevant_lines s1) = length (relevant_lines s2) \<and>
      (\<forall>i < length (relevant_lines s1). relevant_lines s1 ! i = relevant_lines s2 ! i))"
    unfolding fuzzyEqualIR_relevant_lines by (rule list_eq_iff_nth_eq)
  show "fuzzyEqualIR s1 s1"
    by (simp add: fuzzyEqualIR_relevant_lines)
  show "fuzzyEqualIR s1 s2 = fuzzyEqualIR s2 s1"
    unfolding fuzzyEqualIR_relevant_lines by (rule eq_commute)
qed

theorem fuzzyEqualIR_compares_relevant_lines_witness:
  "0 < length (relevant_lines golden_ir) \<and>
   relevant_lines golden_ir ! 0 = relevant_lines actual_ir ! 0 \<and>
   fuzzyEqualIR golden_ir actual_ir"
proof -
  have eq: "fuzzyEqualIR golden_ir actual_ir"
    by (simp add: fuzzyEqualIR_def golden_ir_def actual_ir_def filterIrrelevantIRLines_def HasPrefix_def)
  have len: "0 < length (relevant_lines golden_ir)"
    by (simp add: relevant_lines_def golden_ir_def irrelevant_line_def)
  from eq fuzzyEqualIR_compares_relevant_lines [of "[]" golden_ir actual_ir]
  have "\<forall>i < length (relevant_lines golden_ir). relevant_lines golden_ir ! i = relevant_lines actual_ir ! i"
    by blast
  with len have "relevant_lines golden_ir ! 0 = relevant_lines actual_ir ! 0"
    by blast
  with len eq show ?thesis
    by blast
qed

text \<open>
  C9. On a global constant \<open>markDirty\<close> returns with the state as it was. Whenever
  \<open>markDirty\<close> returns, the dirty-set it leaves contains the one it found, what it
  added is a global variable that is not a global constant, and a dirty-set without
  global constants stays without them. On a value that is neither a global variable
  nor a constant over a global variable, \<open>markDirty\<close> changes nothing: it returns the
  state as it was, or, on a getelementptr instruction, it panics before any change.
  On every value but a getelementptr instruction \<open>markDirty\<close> does return. Run
  starts from the empty dirty-set, and erasing a call leaves the dirty-set as it is.
  During a run, for every block evaluator that changes the dirty-set only as
  \<open>markDirty\<close> does (nothing leaves it, and what enters it is a global variable that
  is not a global constant): the evaluation of a function, when it returns, leaves a
  dirty-set that contains the one it began with; so does the second loop of Run,
  however it is left; and the dirty-set of the state that Run returns holds only
  global variables that are not global constants.
\<close>

theorem markDirty_only_grows:
  fixes e :: "'r Eval" and ev :: "'r evalBasicBlock"
  shows
  "(\<not> IsNil (IsAGlobalVariable v) \<and> IsGlobalConstant v \<longrightarrow> markDirty e v = Returned e) \<and>
   (markDirty e v = Returned e' \<longrightarrow>
      dirtyGlobals e \<subseteq> dirtyGlobals e' \<and>
      (\<forall>g \<in> dirtyGlobals e' - dirtyGlobals e. \<not> IsNil (IsAGlobalVariable g) \<and> \<not> IsGlobalConstant g) \<and>
      ((\<forall>g \<in> dirtyGlobals e. \<not> IsGlobalConstant g) \<longrightarrow>
       (\<forall>g \<in> dirtyGlobals e'. \<not> IsGlobalConstant g))) \<and>
   (IsNil (IsAGlobalVariable v) \<and>
    \<not> (IsConstant v \<and> 2 \<le> OperandsCount v \<and> \<not> IsNil (IsAGlobalVariable (Operand v 0))) \<longrightarrow>
      markDirty e v =
        (if \<not> IsConstant v \<and> \<not> IsNil (IsAGetElementPtrInst v)
         then Panicked ''interp: todo: GEP'' else Returned e)) \<and>
   (IsNil (IsAGetElementPtrInst v) \<longrightarrow> (\<exists>e''. markDirty e v = Returned e'')) \<and>
   dirtyGlobals (scan_state m debug :: 'r Eval) = {} \<and>
   dirtyGlobals (erase_call call e) = dirtyGlobals e \<and>
   (marks_only ev \<and> Eval_function ev e f params pkg indent = Some (Returned (e1, rv, err)) \<longrightarrow>
      dirtyGlobals e \<subseteq> dirtyGlobals e1) \<and>
   (marks_only ev \<and> Run_loop ev name e calls = Some (Returned x) \<longrightarrow>
      dirtyGlobals e \<subseteq> dirtyGlobals (exit_state x)) \<and>
   (marks_only ev \<and> Run ev m debug = Some (Returned (e2, err2)) \<longrightarrow>
      (\<forall>g \<in> dirtyGlobals e2. \<not> IsNil (IsAGlobalVariable g) \<and> \<not> IsGlobalConstant g))"
proof (intro conjI impI)
  assume "\<not> IsNil (IsAGlobalVariable v) \<and> IsGlobalConstant v"
  then show "markDirty e v = Returned e"
    using IsAGlobalVariable_cases [of v] by (auto simp: markDirty_GlobalVariable)
next
  assume r: "markDirty e v = Returned e'"
  from markDirty_Returned [OF r] show "dirtyGlobals e \<subseteq> dirtyGlobals e'"
    by auto
  from markDirty_Returned [OF r]
  show "\<forall>g \<in> dirtyGlobals e' - dirtyGlobals e. \<not> IsNil (IsAGlobalVariable g) \<and> \<not> IsGlobalConstant g"
    by (auto simp: IsNil_def)
  assume "\<forall>g \<in> dirtyGlobals e. \<not> IsGlobalConstant g"
  with markDirty_Returned [OF r] show "\<forall>g \<in> dirtyGlobals e'. \<not> IsGlobalConstant g"
    by auto
next
  assume "IsNil (IsAGlobalVariable v) \<and>
    \<not> (IsConstant v \<and> 2 \<le> OperandsCount v \<and> \<not> IsNil (IsAGlobalVariable (Operand v 0)))"
  then show "markDirty e v =
        (if \<not> IsConstant v \<and> \<not> IsNil (IsAGetElementPtrInst v)
         then Panicked ''interp: todo: GEP'' else Returned e)"
    by (auto simp: markDirty_no_global)
next
  assume n: "IsNil (IsAGetElementPtrInst v)"
  show "\<exists>e''. markDirty e v = Returned e''"
  proof (cases "IsNil (IsAGlobalVariable v)")
    case False
    then obtain name c where "v = GlobalVariable name c"
      using IsAGlobalVariable_cases by blast
    then show ?thesis
      by (simp add: markDirty_GlobalVariable)
  next
    case True
    show ?thesis
    proof (cases "IsConstant v \<and> 2 \<le> OperandsCount v \<and> \<not> IsNil (IsAGlobalVariable (Operand v 0))")
      case False
      with True n show ?thesis
        by (auto simp: markDirty_no_global)
    next
      case over: True
      then obtain name c where "Operand v 0 = GlobalVariable name c"
        using IsAGlobalVariable_cases by blast
      with True over show ?thesis
        by (simp add: markDirty_no_global markDirty_GlobalVariable)
    qed
  qed
next
  show "dirtyGlobals (scan_state m debug :: 'r Eval) = {}"
    by (simp add: scan_state_def)
  show "dirtyGlobals (erase_call call e) = dirtyGlobals e"
    by (simp add: erase_call_def)
next
  assume a: "marks_only ev \<and> Eval_function ev e f params pkg indent = Some (Returned (e1, rv, err))"
  then have "preserves ev (\<lambda>s. dirtyGlobals e \<subseteq> dirtyGlobals s)"
    by (simp add: marks_only_grows)
  from Eval_function_preserves [OF this] a show "dirtyGlobals e \<subseteq> dirtyGlobals e1"
    by blast
next
  assume a: "marks_only ev \<and> Run_loop ev name e calls = Some (Returned x)"
  then have "preserves ev (\<lambda>s. dirtyGlobals e \<subseteq> dirtyGlobals s)"
    by (simp add: marks_only_grows)
  from Run_loop_preserves [OF this, of calls e name x] a
  show "dirtyGlobals e \<subseteq> dirtyGlobals (exit_state x)"
    by (simp add: erase_call_def)
next
  assume a: "marks_only ev \<and> Run ev m debug = Some (Returned (e2, err2))"
  let ?I = "\<lambda>s :: 'r Eval. \<forall>g \<in> dirtyGlobals s. \<not> IsNil (IsAGlobalVariable g) \<and> \<not> IsGlobalConstant g"
  from a have "preserves ev ?I"
    by (simp add: marks_only_no_constant)
  moreover have "?I (scan_state m debug)"
    by (simp add: scan_state_def)
  moreover have "\<forall>c \<in> set (scanned (new_dummy m) (Instructions m initAll_block)).
      \<forall>s. ?I s \<longrightarrow> ?I (erase_call c s)"
    by (simp add: erase_call_def)
  moreover from a have "Run ev m debug = Some (Returned (e2, err2))"
    by simp
  ultimately show "?I e2"
    by (rule Run_preserves)
qed

theorem markDirty_only_grows_witness:
  "IsGlobalConstant (GlobalVariable ''main.table'' True) \<and>
   markDirty example_state (GlobalVariable ''main.table'' True) = Returned example_state \<and>
   markDirty example_state main_v1
     = Returned (example_state\<lparr>dirtyGlobals := {main_v1}, sideEffectFuncs := None\<rparr>) \<and>
   dirtyGlobals example_state
     \<subseteq> dirtyGlobals (example_state\<lparr>dirtyGlobals := {main_v1}, sideEffectFuncs := None\<rparr>) \<and>
   \<not> IsGlobalConstant main_v1 \<and>
   markDirty example_state (Argument ''main.init'' 0) = Returned example_state \<and>
   markDirty example_state (GetElementPtrInst 7 [main_v1, Constant ''i32 0'' []])
     = Panicked ''interp: todo: GEP'' \<and>
   marks_only (evalBasicBlock_model :: nat evalBasicBlock) \<and>
   Eval_function evalBasicBlock_model (erase_call call_main (scan_state failing_init False :: nat Eval))
       (CalledValue call_main) init_params ''main'' ''''
     = Some (Returned ((erase_call call_main (scan_state failing_init False))\<lparr>dirtyGlobals := {main_v1}\<rparr>,
          None, Some (ErrorString ''unevaluable''))) \<and>
   dirtyGlobals (erase_call call_main (scan_state failing_init False :: nat Eval))
     \<subseteq> dirtyGlobals ((erase_call call_main (scan_state failing_init False))
           \<lparr>dirtyGlobals := {main_v1}\<rparr> :: nat Eval) \<and>
   Run_loop evalBasicBlock_model ''runtime.initAll'' (scan_state two_inits False :: nat Eval)
       [call_os, call_main]
     = Some (Returned (Completed ((erase_call call_main (erase_call call_os (scan_state two_inits False)))
            \<lparr>dirtyGlobals := {main_v1}\<rparr>))) \<and>
   dirtyGlobals (scan_state two_inits False :: nat Eval)
     \<subseteq> dirtyGlobals (exit_state (Completed ((erase_call call_main
           (erase_call call_os (scan_state two_inits False))) \<lparr>dirtyGlobals := {main_v1}\<rparr> :: nat Eval))) \<and>
   Run evalBasicBlock_model two_inits False
     = Some (Returned ((erase_call call_main (erase_call call_os (scan_state two_inits False)))
            \<lparr>dirtyGlobals := {main_v1}\<rparr> :: nat Eval, None)) \<and>
   main_v1 \<in> dirtyGlobals ((erase_call call_main (erase_call call_os (scan_state two_inits False)))
            \<lparr>dirtyGlobals := {main_v1}\<rparr> :: nat Eval) \<and>
   \<not> IsNil (IsAGlobalVariable main_v1)"
proof -
  let ?e' = "example_state\<lparr>dirtyGlobals := {main_v1}, sideEffectFuncs := None\<rparr>"
  let ?gc = "GlobalVariable ''main.table'' True"
  let ?arg = "Argument ''main.init'' 0"
  let ?gep = "GetElementPtrInst 7 [main_v1, Constant ''i32 0'' []]"
  let ?f0 = "erase_call call_main (scan_state failing_init False :: nat Eval)"
  let ?f1 = "?f0\<lparr>dirtyGlobals := {main_v1}\<rparr>"
  let ?t0 = "scan_state two_inits False :: nat Eval"
  let ?t1 = "(erase_call call_main (erase_call call_os ?t0))\<lparr>dirtyGlobals := {main_v1}\<rparr>"
  have c: "\<not> IsNil (IsAGlobalVariable ?gc) \<and> IsGlobalConstant ?gc"
    by (simp add: IsNil_def)
  with markDirty_only_grows [where v = ?gc
      and e = example_state
      and e' = example_state
      and m = no_inits
      and debug = False
      and call = call_main
      and ev = "evalBasicBlock_model :: nat evalBasicBlock"
      and f = "CalledValue call_main"
      and params = init_params
      and pkg = "''main''"
      and indent = "''''"
      and ?e1.0 = example_state
      and rv = None
      and err = None
      and name = "''runtime.initAll''"
      and calls = "[] :: llvm_value list"
      and x = "Completed example_state"
      and ?e2.0 = example_state
      and ?err2.0 = None]
  have 1: "markDirty example_state ?gc = Returned example_state"
    by blast
  have r: "markDirty example_state main_v1 = Returned ?e'"
    by (simp add: markDirty.simps main_v1_def example_state_def IsNil_def)
  with markDirty_only_grows [where v = main_v1
      and e = example_state
      and e' = ?e'
      and m = no_inits
      and debug = False
      and call = call_main
      and ev = "evalBasicBlock_model :: nat evalBasicBlock"
      and f = "CalledValue call_main"
      and params = init_params
      and pkg = "''main''"
      and indent = "''''"
      and ?e1.0 = example_state
      and rv = None
      and err = None
      and name = "''runtime.initAll''"
      and calls = "[] :: llvm_value list"
      and x = "Completed example_state"
      and ?e2.0 = example_state
      and ?err2.0 = None]
  have s: "dirtyGlobals example_state \<subseteq> dirtyGlobals ?e'"
    and b: "\<forall>g \<in> dirtyGlobals ?e' - dirtyGlobals example_state.
        \<not> IsNil (IsAGlobalVariable g) \<and> \<not> IsGlobalConstant g"
    by blast+
  have "main_v1 \<in> dirtyGlobals ?e' - dirtyGlobals example_state"
    by (simp add: example_state_def)
  with b have 2: "\<not> IsGlobalConstant main_v1"
    by blast
  have a: "IsNil (IsAGlobalVariable ?arg) \<and>
    \<not> (IsConstant ?arg \<and> 2 \<le> OperandsCount ?arg \<and> \<not> IsNil (IsAGlobalVariable (Operand ?arg 0)))"
    by (simp add: IsNil_def)
  with markDirty_only_grows [where v = ?arg
      and e = example_state
      and e' = example_state
      and m = no_inits
      and debug = False
      and call = call_main
      and ev = "evalBasicBlock_model :: nat evalBasicBlock"
      and f = "CalledValue call_main"
      and params = init_params
      and pkg = "''main''"
      and indent = "''''"
      and ?e1.0 = example_state
      and rv = None
      and err = None
      and name = "''runtime.initAll''"
      and calls = "[] :: llvm_value list"
      and x = "Completed example_state"
      and ?e2.0 = example_state
      and ?err2.0 = None]
  have "markDirty example_state ?arg =
      (if \<not> IsConstant ?arg \<and> \<not> IsNil (IsAGetElementPtrInst ?arg)
       then Panicked ''interp: todo: GEP'' else Returned example_state)"
    by blast
  then have 3: "markDirty example_state ?arg = Returned example_state"
    by (simp add: IsNil_def)
  have g: "IsNil (IsAGlobalVariable ?gep) \<and>
    \<not> (IsConstant ?gep \<and> 2 \<le> OperandsCount ?gep \<and> \<not> IsNil (IsAGlobalVariable (Operand ?gep 0)))"
    by (simp add: IsNil_def)
  with markDirty_only_grows [where v = ?gep
      and e = example_state
      and e' = example_state
      and m = no_inits
      and debug = False
      and call = call_main
      and ev = "evalBasicBlock_model :: nat evalBasicBlock"
      and f = "CalledValue call_main"
      and params = init_params
      and pkg = "''main''"
      and indent = "''''"
      and ?e1.0 = example_state
      and rv = None
      and err = None
      and name = "''runtime.initAll''"
      and calls = "[] :: llvm_value list"
      and x = "Completed example_state"
      and ?e2.0 = example_state
      and ?err2.0 = None]
  have "markDirty example_state ?gep =
      (if \<not> IsConstant ?gep \<and> \<not> IsNil (IsAGetElementPtrInst ?gep)
       then Panicked ''interp: todo: GEP'' else Returned example_state)"
    by blast
  then have 4: "markDirty example_state ?gep = Panicked ''interp: todo: GEP''"
    by (simp add: IsNil_def)
  have mo: "marks_only (evalBasicBlock_model :: nat evalBasicBlock)"
    by (rule marks_only_model)
  have ef: "Eval_function evalBasicBlock_model ?f0 (CalledValue call_main) init_params ''main'' ''''
     = Some (Returned (?f1, None, Some (ErrorString ''unevaluable'')))"
    by (simp add: run_defs example_defs)
  with mo markDirty_only_grows [where v = main_v1
      and e = ?f0
      and e' = example_state
      and m = no_inits
      and debug = False
      and call = call_main
      and ev = "evalBasicBlock_model :: nat evalBasicBlock"
      and f = "CalledValue call_main"
      and params = init_params
      and pkg = "''main''"
      and indent = "''''"
      and ?e1.0 = ?f1
      and rv = None
      and err = "Some (ErrorString ''unevaluable'')"
      and name = "''runtime.initAll''"
      and calls = "[] :: llvm_value list"
      and x = "Completed example_state"
      and ?e2.0 = example_state
      and ?err2.0 = None]
  have 5: "dirtyGlobals ?f0 \<subseteq> dirtyGlobals ?f1"
    by blast
  have rl: "Run_loop evalBasicBlock_model ''runtime.initAll'' ?t0 [call_os, call_main]
     = Some (Returned (Completed ?t1))"
    by (simp add: run_defs example_defs)
  with mo markDirty_only_grows [where v = main_v1
      and e = ?t0
      and e' = example_state
      and m = no_inits
      and debug = False
      and call = call_main
      and ev = "evalBasicBlock_model :: nat evalBasicBlock"
      and f = "CalledValue call_main"
      and params = init_params
      and pkg = "''main''"
      and indent = "''''"
      and ?e1.0 = example_state
      and rv = None
      and err = None
      and name = "''runtime.initAll''"
      and calls = "[call_os, call_main]"
      and x = "Completed ?t1"
      and ?e2.0 = example_state
      and ?err2.0 = None]
  have 6: "dirtyGlobals ?t0 \<subseteq> dirtyGlobals (exit_state (Completed ?t1))"
    by blast
  have rn: "Run evalBasicBlock_model two_inits False = Some (Returned (?t1, None))"
    by (simp add: run_defs example_defs)
  with mo markDirty_only_grows [where v = main_v1
      and e = example_state
      and e' = example_state
      and m = two_inits
      and debug = False
      and call = call_main
      and ev = "evalBasicBlock_model :: nat evalBasicBlock"
      and f = "CalledValue call_main"
      and params = init_params
      and pkg = "''main''"
      and indent = "''''"
      and ?e1.0 = example_state
      and rv = None
      and err = None
      and name = "''runtime.initAll''"
      and calls = "[] :: llvm_value list"
      and x = "Completed example_state"
      and ?e2.0 = ?t1
      and ?err2.0 = None]
  have b2: "\<forall>g \<in> dirtyGlobals ?t1. \<not> IsNil (IsAGlobalVariable g) \<and> \<not> IsGlobalConstant g"
    by blast
  have 7: "main_v1 \<in> dirtyGlobals ?t1"
    by simp
  with b2 have 8: "\<not> IsNil (IsAGlobalVariable main_v1)"
    by blast
  from c 1 r s 2 3 4 mo ef 5 rl 6 rn 7 8 show ?thesis
    by blast
qed

text \<open>
  C10. \<^verbatim>\<open>function\<close> takes the value of the i-th parameter of the callee from
  \<^verbatim>\<open>params[i]\<close> and checks no length: when the callee has more parameters than
  \<open>params\<close> has entries, \<^verbatim>\<open>function\<close> and \<^verbatim>\<open>Function\<close> panic with an index out of
  range; when it has no more, every parameter is bound to the entry at its position.
  These locals are what block evaluation gets: when the callee has an entry block
  and no more parameters than \<open>params\<close> has entries, \<^verbatim>\<open>function\<close> is the block loop
  started at the entry block in the frame whose locals hold, at every parameter, the
  entry of \<open>params\<close> at its position, and hold nothing else (\<^verbatim>\<open>Function\<close> the same,
  with the empty indentation).
  Run gives every init the same two parameters, both the undefined \<^verbatim>\<open>i8*\<close>, whatever
  the callee: so an init with more than two parameters makes Run panic.
\<close>

theorem function_seeds_locals_unchecked:
  "(lookup_function (Mod e) f = Some d \<and> length params < length (Params d) \<longrightarrow>
      Eval_function ev e f params pkg indent = Some (Panicked ''index out of range'') \<and>
      Eval_Function ev e f params pkg = Some (Panicked ''index out of range'')) \<and>
   (length (Params d) \<le> length params \<and> distinct (Params d) \<longrightarrow>
      (\<exists>ls. seed_locals (Params d) params 0 Map.empty = Some ls \<and>
         (\<forall>j < length (Params d). ls (Params d ! j) = Some (params ! j)))) \<and>
   (lookup_function (Mod e) f = Some d \<and> Blocks d \<noteq> [] \<and>
    length (Params d) \<le> length params \<and> distinct (Params d) \<longrightarrow>
      (\<exists>ls. (\<forall>j < length (Params d). ls (Params d ! j) = Some (params ! j)) \<and>
         dom ls = set (Params d) \<and>
         Eval_function ev e f params pkg indent =
           function_loop ev e \<lparr>fn = f, pkgName = pkg, locals = ls\<rparr> (BasicBlock (Name f) 0) None indent \<and>
         Eval_Function ev e f params pkg =
           function_loop ev e \<lparr>fn = f, pkgName = pkg, locals = ls\<rparr> (BasicBlock (Name f) 0) None [])) \<and>
   (HasSuffix (Name (CalledValue call)) ''.init'' \<longrightarrow>
      Run_loop ev name e0 (call # rest) =
        Option.bind
          (Eval_Function ev (erase_call call e0) (CalledValue call)
             [LocalValue undefPtr, LocalValue undefPtr] (package_of call))
          (\<lambda>r. case r of
             Panicked msg \<Rightarrow> Some (Panicked msg)
           | Returned (e2, retval, err) \<Rightarrow>
               (case err of
                  None \<Rightarrow> Run_loop ev name e2 rest
                | Some x \<Rightarrow> Some (Returned (if x = ErrUnreachable then Break e2 else Return e2 x))))) \<and>
   (HasSuffix (Name (CalledValue call)) ''.init'' \<and>
    lookup_function (Mod e0) (CalledValue call) = Some d \<and> 2 < length (Params d) \<longrightarrow>
      Run_loop ev name e0 (call # rest) = Some (Panicked ''index out of range''))"
proof (intro conjI impI)
  assume a: "lookup_function (Mod e) f = Some d \<and> length params < length (Params d)"
  then have "seed_locals (Params d) params 0 Map.empty = None"
    by (simp add: seed_locals_short)
  with a have r: "Eval_function ev e f params pkg ind = Some (Panicked ''index out of range'')" for ind
    by (simp add: Eval_function_def)
  from r show "Eval_function ev e f params pkg indent = Some (Panicked ''index out of range'')" .
  from r show "Eval_Function ev e f params pkg = Some (Panicked ''index out of range'')"
    by (simp add: Eval_Function_def)
next
  assume "length (Params d) \<le> length params \<and> distinct (Params d)"
  then show "\<exists>ls. seed_locals (Params d) params 0 Map.empty = Some ls \<and>
         (\<forall>j < length (Params d). ls (Params d ! j) = Some (params ! j))"
    using seed_locals_by_position [of 0 "Params d" params Map.empty] by auto
next
  assume a: "lookup_function (Mod e) f = Some d \<and> Blocks d \<noteq> [] \<and>
    length (Params d) \<le> length params \<and> distinct (Params d)"
  then obtain ls where s: "seed_locals (Params d) params 0 Map.empty = Some ls"
    and p: "\<forall>j < length (Params d). ls (Params d ! j) = Some (params ! j)"
    using seed_locals_by_position [of 0 "Params d" params Map.empty] by auto
  from seed_locals_dom [OF s] have d: "dom ls = set (Params d)"
    by simp
  from a s have r: "Eval_function ev e f params pkg ind =
      function_loop ev e \<lparr>fn = f, pkgName = pkg, locals = ls\<rparr> (BasicBlock (Name f) 0) None ind" for ind
    by (simp add: Eval_function_def EntryBasicBlock_def)
  from r [of "[]"] have "Eval_Function ev e f params pkg =
      function_loop ev e \<lparr>fn = f, pkgName = pkg, locals = ls\<rparr> (BasicBlock (Name f) 0) None []"
    by (simp add: Eval_Function_def)
  with p d r [of indent]
  show "\<exists>ls. (\<forall>j < length (Params d). ls (Params d ! j) = Some (params ! j)) \<and>
         dom ls = set (Params d) \<and>
         Eval_function ev e f params pkg indent =
           function_loop ev e \<lparr>fn = f, pkgName = pkg, locals = ls\<rparr> (BasicBlock (Name f) 0) None indent \<and>
         Eval_Function ev e f params pkg =
           function_loop ev e \<lparr>fn = f, pkgName = pkg, locals = ls\<rparr> (BasicBlock (Name f) 0) None []"
    by blast
next
  assume "HasSuffix (Name (CalledValue call)) ''.init''"
  then show "Run_loop ev name e0 (call # rest) =
        Option.bind
          (Eval_Function ev (erase_call call e0) (CalledValue call)
             [LocalValue undefPtr, LocalValue undefPtr] (package_of call))
          (\<lambda>r. case r of
             Panicked msg \<Rightarrow> Some (Panicked msg)
           | Returned (e2, retval, err) \<Rightarrow>
               (case err of
                  None \<Rightarrow> Run_loop ev name e2 rest
                | Some x \<Rightarrow> Some (Returned (if x = ErrUnreachable then Break e2 else Return e2 x))))"
    by (simp only: Run_loop_Cons init_params_def)
next
  assume a: "HasSuffix (Name (CalledValue call)) ''.init'' \<and>
    lookup_function (Mod e0) (CalledValue call) = Some d \<and> 2 < length (Params d)"
  let ?d = "d\<lparr>Blocks := map (removeAll call) (Blocks d)\<rparr>"
  from a have l: "lookup_function (Mod (erase_call call e0)) (CalledValue call) = Some ?d"
    by (simp add: erase_call_def lookup_function_Erase)
  from a have "seed_locals (Params ?d) init_params 0 Map.empty = None"
    by (simp add: seed_locals_short init_params_def)
  with l have "Eval_Function ev (erase_call call e0) (CalledValue call) init_params (package_of call)
      = Some (Panicked ''index out of range'')"
    by (simp add: Eval_Function_def Eval_function_def)
  with a show "Run_loop ev name e0 (call # rest) = Some (Panicked ''index out of range'')"
    by (simp only: Run_loop_Cons) simp
qed

theorem function_seeds_locals_unchecked_witness:
  "lookup_function (Mod (scan_state two_inits False :: nat Eval)) (FunctionValue ''main.init'')
     = Some (snd (init_function ''main.init'' [store_v1, ReturnInst 11 []])) \<and>
   Eval_Function evalBasicBlock_model (scan_state two_inits False :: nat Eval)
       (FunctionValue ''main.init'') [LocalValue undefPtr] ''main''
     = Some (Panicked ''index out of range'') \<and>
   (\<exists>ls. seed_locals [Argument ''main.init'' 0, Argument ''main.init'' 1] init_params 0 Map.empty = Some ls \<and>
      ls (Argument ''main.init'' 1) = Some (LocalValue undefPtr)) \<and>
   Eval_Function (evalBasicBlock_local (Argument ''main.init'' 1)) (scan_state two_inits False :: nat Eval)
       (FunctionValue ''main.init'') [LocalValue main_v1, LocalValue undefPtr, LocalValue main_v1] ''main''
     = Some (Returned (scan_state two_inits False, Some (LocalValue undefPtr), None)) \<and>
   Eval_Function (evalBasicBlock_local (Argument ''main.init'' 0)) (scan_state two_inits False :: nat Eval)
       (FunctionValue ''main.init'') [LocalValue main_v1, LocalValue undefPtr, LocalValue main_v1] ''main''
     = Some (Returned (scan_state two_inits False, Some (LocalValue main_v1), None)) \<and>
   Eval_Function (evalBasicBlock_local main_v1) (scan_state two_inits False :: nat Eval)
       (FunctionValue ''main.init'') [LocalValue main_v1, LocalValue undefPtr, LocalValue main_v1] ''main''
     = Some (Returned (scan_state two_inits False, None, None)) \<and>
   HasSuffix (Name (CalledValue call_main)) ''.init'' \<and>
   Run_loop evalBasicBlock_model ''runtime.initAll'' (scan_state three_params False :: nat Eval)
       (call_main # [])
     = Some (Panicked ''index out of range'')"
proof -
  let ?e = "scan_state two_inits False :: nat Eval"
  let ?d = "snd (init_function ''main.init'' [store_v1, ReturnInst 11 []])"
  let ?e3 = "scan_state three_params False :: nat Eval"
  let ?d3 = "\<lparr>Params = [Argument ''main.init'' 0, Argument ''main.init'' 1, Argument ''main.init'' 2],
        Blocks = [[ReturnInst 11 []]]\<rparr>"
  let ?ps = "[LocalValue main_v1, LocalValue undefPtr, LocalValue main_v1]"
  let ?f = "FunctionValue ''main.init''"
  have l: "lookup_function (Mod ?e) ?f = Some ?d"
    by (simp add: run_defs example_defs)
  have p: "length [LocalValue undefPtr] < length (Params ?d)"
    by (simp add: init_function_def)
  have q: "length (Params ?d) \<le> length init_params \<and> distinct (Params ?d)"
    by (simp add: init_function_def init_params_def)
  have q3: "Blocks ?d \<noteq> [] \<and> length (Params ?d) \<le> length ?ps \<and> distinct (Params ?d)"
    by (simp add: init_function_def)
  have n: "HasSuffix (Name (CalledValue call_main)) ''.init''"
    by (simp add: HasSuffix_def call_main_def)
  have l3: "lookup_function (Mod ?e3) (CalledValue call_main) = Some ?d3"
    by (simp add: run_defs example_defs)
  have p3: "2 < length (Params ?d3)"
    by simp
  note t = function_seeds_locals_unchecked [where e = ?e and f = ?f and d = ?d
      and params = "[LocalValue undefPtr]" and ev = evalBasicBlock_model and pkg = "''main''"
      and indent = "[]" and call = call_main and name = "''runtime.initAll''" and ?e0.0 = ?e3
      and rest = "[]"]
  note u = function_seeds_locals_unchecked [where e = ?e and f = ?f and d = ?d
      and params = init_params and ev = evalBasicBlock_model and pkg = "''main''"
      and indent = "[]" and call = call_main and name = "''runtime.initAll''" and ?e0.0 = ?e3
      and rest = "[]"]
  note v = function_seeds_locals_unchecked [where e = ?e and f = ?f and d = ?d3
      and params = init_params and ev = evalBasicBlock_model and pkg = "''main''"
      and indent = "[]" and call = call_main and name = "''runtime.initAll''" and ?e0.0 = ?e3
      and rest = "[]"]
  have w: "\<exists>ls. (\<forall>j < length (Params ?d). ls (Params ?d ! j) = Some (?ps ! j)) \<and>
         dom ls = set (Params ?d) \<and>
         Eval_Function (evalBasicBlock_local x) ?e ?f ?ps ''main'' =
           function_loop (evalBasicBlock_local x) ?e \<lparr>fn = ?f, pkgName = ''main'', locals = ls\<rparr>
             (BasicBlock (Name ?f) 0) None []" for x
    using function_seeds_locals_unchecked [where e = ?e and f = ?f and d = ?d
      and params = ?ps and ev = "evalBasicBlock_local x" and pkg = "''main''"
      and indent = "[]" and call = call_main and name = "''runtime.initAll''" and ?e0.0 = ?e3
      and rest = "[]"] l q3
    by blast
  from t l p have 1: "Eval_Function evalBasicBlock_model ?e ?f
      [LocalValue undefPtr] ''main'' = Some (Panicked ''index out of range'')"
    by blast
  from u q obtain ls where "seed_locals (Params ?d) init_params 0 Map.empty = Some ls"
      and "\<forall>j < length (Params ?d). ls (Params ?d ! j) = Some (init_params ! j)"
    by blast
  then have 2: "\<exists>ls. seed_locals [Argument ''main.init'' 0, Argument ''main.init'' 1] init_params 0 Map.empty = Some ls \<and>
      ls (Argument ''main.init'' 1) = Some (LocalValue undefPtr)"
    by (auto simp: init_function_def init_params_def)
  have k: "Eval_Function (evalBasicBlock_local x) ?e ?f ?ps ''main''
      = Some (Returned (?e, y, None))"
    if "\<And>ls. (\<forall>j < length (Params ?d). ls (Params ?d ! j) = Some (?ps ! j)) \<Longrightarrow>
           dom ls = set (Params ?d) \<Longrightarrow> ls x = y" for x y
  proof -
    from w [of x] obtain ls where a: "\<forall>j < length (Params ?d). ls (Params ?d ! j) = Some (?ps ! j)"
      and b: "dom ls = set (Params ?d)"
      and c: "Eval_Function (evalBasicBlock_local x) ?e ?f ?ps ''main'' =
           function_loop (evalBasicBlock_local x) ?e \<lparr>fn = ?f, pkgName = ''main'', locals = ls\<rparr>
             (BasicBlock (Name ?f) 0) None []"
      by blast
    from that [OF a b] c show ?thesis
      by (simp add: function_loop_local)
  qed
  have 4: "Eval_Function (evalBasicBlock_local (Argument ''main.init'' 1)) ?e ?f ?ps ''main''
      = Some (Returned (?e, Some (LocalValue undefPtr), None))"
  proof (rule k)
    fix ls :: "llvm_value \<rightharpoonup> Value"
    assume "\<forall>j < length (Params ?d). ls (Params ?d ! j) = Some (?ps ! j)"
    moreover have "1 < length (Params ?d)"
      by (simp add: init_function_def)
    ultimately have "ls (Params ?d ! 1) = Some (?ps ! 1)"
      by blast
    then show "ls (Argument ''main.init'' 1) = Some (LocalValue undefPtr)"
      by (simp add: init_function_def)
  qed
  have 5: "Eval_Function (evalBasicBlock_local (Argument ''main.init'' 0)) ?e ?f ?ps ''main''
      = Some (Returned (?e, Some (LocalValue main_v1), None))"
  proof (rule k)
    fix ls :: "llvm_value \<rightharpoonup> Value"
    assume "\<forall>j < length (Params ?d). ls (Params ?d ! j) = Some (?ps ! j)"
    moreover have "0 < length (Params ?d)"
      by (simp add: init_function_def)
    ultimately have "ls (Params ?d ! 0) = Some (?ps ! 0)"
      by blast
    then show "ls (Argument ''main.init'' 0) = Some (LocalValue main_v1)"
      by (simp add: init_function_def)
  qed
  have 6: "Eval_Function (evalBasicBlock_local main_v1) ?e ?f ?ps ''main''
      = Some (Returned (?e, None, None))"
  proof (rule k)
    fix ls :: "llvm_value \<rightharpoonup> Value"
    assume "dom ls = set (Params ?d)"
    then have "main_v1 \<notin> dom ls"
      by (simp add: init_function_def main_v1_def)
    then show "ls main_v1 = None"
      by blast
  qed
  from v n l3 p3 have 3: "Run_loop evalBasicBlock_model ''runtime.initAll'' ?e3 (call_main # [])
     = Some (Panicked ''index out of range'')"
    by blast
  from l 1 2 4 5 6 n 3 show ?thesis
    by blast
qed

end
